theory Spec2Isabelle
  imports Main
begin

section \<open>Bit vectors of the hardware description layer\<close>

text \<open>
  Modelled from the spec: the signal algebra of the surrounding framework (the package's
  \<^verbatim>\<open>Signal\<close>, \<^verbatim>\<open>Cat\<close>, slicing, \<^verbatim>\<open>.bool()\<close>, \<^verbatim>\<open>&\<close>, \<^verbatim>\<open>|\<close>, \<^verbatim>\<open>~\<close> and \<^verbatim>\<open>.eq\<close>) is imported by
  \<^verbatim>\<open>from .. import *\<close> and is not part of the sources at hand. Section 1 of the
  specification describes it as "fixed-width bit-vector values with bitwise operators".
  A value is the list of its bits, least significant bit first; all values here are
  unsigned. A binary bitwise operator works at the width of its wider operand, the
  narrower one extended by zeros; \<^verbatim>\<open>.bool()\<close> is the one-bit value that is set when
  any bit is; \<^verbatim>\<open>Cat\<close> puts its first argument at the low end; \<^verbatim>\<open>v[:i]\<close> and
  \<^verbatim>\<open>v[n:]\<close> are Python slices (clamped, never raising); an assignment to a signal
  of width \<open>n\<close> truncates or zero-extends to \<open>n\<close> bits.
\<close>

type_synonym bits = "bool list"

definition zext :: "nat \<Rightarrow> bits \<Rightarrow> bits" where
  "zext n v = v @ replicate (n - length v) False"

definition and_v :: "bits \<Rightarrow> bits \<Rightarrow> bits" where
  "and_v a b = (let n = max (length a) (length b) in map2 (\<and>) (zext n a) (zext n b))"

definition or_v :: "bits \<Rightarrow> bits \<Rightarrow> bits" where
  "or_v a b = (let n = max (length a) (length b) in map2 (\<or>) (zext n a) (zext n b))"

definition not_v :: "bits \<Rightarrow> bits" where
  "not_v a = map Not a"

definition bool_v :: "bits \<Rightarrow> bits" where
  "bool_v v = [True \<in> set v]"

definition Cat :: "bits list \<Rightarrow> bits" where
  "Cat parts = concat parts"

definition assign :: "nat \<Rightarrow> bits \<Rightarrow> bits" where
  "assign n v = take n (zext n v)"

text \<open>The vector of width \<open>n\<close> whose only set bit is bit \<open>k\<close>, and the all-zero vector.\<close>

definition onehot :: "nat \<Rightarrow> nat \<Rightarrow> bits" where
  "onehot n k = (replicate n False)[k := True]"

definition zeros :: "nat \<Rightarrow> bits" where
  "zeros n = replicate n False"

text \<open>The number of set bits of a vector.\<close>

definition popcount :: "bits \<Rightarrow> nat" where
  "popcount v = length (filter id v)"

section \<open>coding.py: the exclusive left smear and PrioritySelector\<close>

text \<open>
  \<^verbatim>\<open>def _smear_lx(signal):
      return Cat(signal[:i].bool() for i in range(signal.nbits))\<close>
\<close>

definition smear_lx :: "bits \<Rightarrow> bits" where
  "smear_lx signal = Cat (map (\<lambda>i. bool_v (take i signal)) [0..<length signal])"

text \<open>
  \<^verbatim>\<open>PrioritySelector.__init__\<close> keeps the width; \<^verbatim>\<open>elaborate\<close> drives
  \<^verbatim>\<open>self.o\<close> combinationally with \<^verbatim>\<open>self.i & ~deny\<close>. The argument \<open>i\<close> is the
  value of the input signal in the current tick.
\<close>

record PrioritySelector =
  width :: nat

definition PrioritySelector_elaborate :: "PrioritySelector \<Rightarrow> bits \<Rightarrow> bits" where
  "PrioritySelector_elaborate self i =
     (let deny = smear_lx i
      in assign (width self) (and_v i (not_v deny)))"


section \<open>coding.py: RoundRobinSelector\<close>

datatype RobinPolicy = WITHDRAW | CE

record RoundRobinSelector =
  n_reqs :: nat
  policy :: RobinPolicy

text \<open>
  Lines 286 to 290 of \<^verbatim>\<open>RoundRobinSelector.elaborate\<close>: the freshly arbitrated grant,
  from the register \<^verbatim>\<open>grant_prev\<close> and the value \<open>i\<close> of the request input.
  \<^verbatim>\<open>req_unwrapped = Cat(self.i & _smear_lx(grant_prev), self.i)
  psel = m.submodules.psel = PrioritySelector(self.n_reqs * 2)
  m.d.comb += psel.i.eq(req_unwrapped)
  grant = psel.o[:self.n_reqs] | psel.o[self.n_reqs:]\<close>
\<close>

definition RoundRobinSelector_grant :: "RoundRobinSelector \<Rightarrow> bits \<Rightarrow> bits \<Rightarrow> bits" where
  "RoundRobinSelector_grant self grant_prev i =
     (let req_unwrapped = Cat [and_v i (smear_lx grant_prev), i];
          psel = \<lparr>width = n_reqs self * 2\<rparr>;
          psel_i = assign (width psel) req_unwrapped;
          psel_o = PrioritySelector_elaborate psel psel_i
      in or_v (take (n_reqs self) psel_o) (drop (n_reqs self) psel_o))"

text \<open>
  Lines 292 to 295: the condition of \<^verbatim>\<open>m.If(en)\<close>. An input of a tick is the pair of
  the request vector and the value of \<^verbatim>\<open>self.en\<close>; the latter exists only under
  the policy CE and is ignored under WITHDRAW.
\<close>

definition RoundRobinSelector_en :: "RoundRobinSelector \<Rightarrow> bits \<Rightarrow> bits \<times> bool \<Rightarrow> bool" where
  "RoundRobinSelector_en self grant_prev inp =
     (let en = (if policy self = WITHDRAW
                then not_v (bool_v (and_v (fst inp) grant_prev))
                else [snd inp])
      in True \<in> set en)"

text \<open>
  Lines 297 to 301: one tick. The result is the value of \<^verbatim>\<open>self.o\<close> in this tick
  (driven in the combinational domain in both branches) and the value of the register
  \<^verbatim>\<open>grant_prev\<close> in the next tick (assigned in the synchronous domain under
  \<^verbatim>\<open>m.If(en)\<close>, kept otherwise).
\<close>

definition RoundRobinSelector_elaborate ::
    "RoundRobinSelector \<Rightarrow> bits \<Rightarrow> bits \<times> bool \<Rightarrow> bits \<times> bits" where
  "RoundRobinSelector_elaborate self grant_prev inp =
     (let grant = RoundRobinSelector_grant self grant_prev (fst inp)
      in if RoundRobinSelector_en self grant_prev inp
         then (assign (n_reqs self) grant, assign (n_reqs self) grant)
         else (assign (n_reqs self) grant_prev, grant_prev))"

text \<open>The register is a \<^verbatim>\<open>Signal(self.n_reqs)\<close>, whose reset value is zero.\<close>

definition RoundRobinSelector_reset :: "RoundRobinSelector \<Rightarrow> bits" where
  "RoundRobinSelector_reset self = zeros (n_reqs self)"

text \<open>
  A run over a list of inputs, one per tick: the register after the run, the outputs
  tick by tick, and the outputs of those ticks on which a new round of arbitration ran.
\<close>

fun RoundRobinSelector_state :: "RoundRobinSelector \<Rightarrow> bits \<Rightarrow> (bits \<times> bool) list \<Rightarrow> bits" where
  "RoundRobinSelector_state self st [] = st"
| "RoundRobinSelector_state self st (x # xs) =
     RoundRobinSelector_state self (snd (RoundRobinSelector_elaborate self st x)) xs"

fun RoundRobinSelector_outputs ::
    "RoundRobinSelector \<Rightarrow> bits \<Rightarrow> (bits \<times> bool) list \<Rightarrow> bits list" where
  "RoundRobinSelector_outputs self st [] = []"
| "RoundRobinSelector_outputs self st (x # xs) =
     fst (RoundRobinSelector_elaborate self st x)
       # RoundRobinSelector_outputs self (snd (RoundRobinSelector_elaborate self st x)) xs"

fun RoundRobinSelector_rounds ::
    "RoundRobinSelector \<Rightarrow> bits \<Rightarrow> (bits \<times> bool) list \<Rightarrow> bits list" where
  "RoundRobinSelector_rounds self st [] = []"
| "RoundRobinSelector_rounds self st (x # xs) =
     (if RoundRobinSelector_en self st x
      then [fst (RoundRobinSelector_elaborate self st x)] else [])
       @ RoundRobinSelector_rounds self (snd (RoundRobinSelector_elaborate self st x)) xs"

text \<open>Inputs fit an instance when every request vector has the instance's width.\<close>

definition fits :: "RoundRobinSelector \<Rightarrow> (bits \<times> bool) list \<Rightarrow> bool" where
  "fits self xs = list_all (\<lambda>x. length (fst x) = n_reqs self) xs"

section \<open>The rotation, in the words of the specification\<close>

text \<open>
  Section 4.3: "the lowest-indexed request strictly above the last grant wins if any
  exists; otherwise the arbitration wraps around and the lowest-indexed request overall
  wins". The last grant is an index, or none; so is the winner.
\<close>

definition lowest_request :: "bits \<Rightarrow> nat option" where
  "lowest_request r = find (\<lambda>m. r ! m) [0..<length r]"

definition lowest_request_above :: "nat \<Rightarrow> bits \<Rightarrow> nat option" where
  "lowest_request_above k r = find (\<lambda>m. k < m \<and> r ! m) [0..<length r]"

definition rotation_winner :: "nat option \<Rightarrow> bits \<Rightarrow> nat option" where
  "rotation_winner lastg r =
     (case lastg of
        None \<Rightarrow> lowest_request r
      | Some k \<Rightarrow>
          (case lowest_request_above k r of
             Some m \<Rightarrow> Some m
           | None \<Rightarrow> lowest_request r))"

definition grant_vector :: "nat \<Rightarrow> nat option \<Rightarrow> bits" where
  "grant_vector n w = (case w of None \<Rightarrow> zeros n | Some m \<Rightarrow> onehot n m)"

text \<open>The last grant, as an index or none, is within a register of width \<open>n\<close>.\<close>

definition valid_last :: "nat \<Rightarrow> nat option \<Rightarrow> bool" where
  "valid_last n lastg = (case lastg of None \<Rightarrow> True | Some k \<Rightarrow> k < n)"

section \<open>Python values and exceptions\<close>

text \<open>
  A raise of the source is the left summand of a result. The string of an exception is
  the fixed part of its message (the name that is not defined for a NameError, the
  attribute that is missing for an AttributeError).
\<close>

datatype pyerr =
  TypeError string | ValueError string | NameError string | AttributeError string |
  IndexError string

text \<open>
  The values a constructor of the library can be called with: an integer, a Boolean
  (in Python \<^verbatim>\<open>bool\<close> is a subclass of \<^verbatim>\<open>int\<close>, so \<^verbatim>\<open>isinstance(True, int)\<close>
  holds and \<^verbatim>\<open>True < 1\<close> is false), a string, \<^verbatim>\<open>None\<close>, a member of
  \<^verbatim>\<open>RobinPolicy\<close>, or some other object.
\<close>

datatype pyval = PyInt int | PyBool bool | PyStr string | PyNone | PyPolicy RobinPolicy | PyObject

fun isinstance_int :: "pyval \<Rightarrow> bool" where
  "isinstance_int (PyInt n) = True"
| "isinstance_int (PyBool b) = True"
| "isinstance_int v = False"

fun int_of :: "pyval \<Rightarrow> int" where
  "int_of (PyInt n) = n"
| "int_of (PyBool b) = (if b then 1 else 0)"
| "int_of v = 0"

text \<open>
  Modelled from the spec: the constructor \<^verbatim>\<open>Signal\<close> belongs to the framework and is
  not part of the sources at hand. A signal is a fixed-width bit vector (section 1 and
  section 3 of the specification). The model covers the three ways in which the library
  calls it with integers: \<^verbatim>\<open>Signal(w)\<close> with an integer width \<open>w\<close>, which gives a
  signal of that width when \<open>w\<close> is not negative and is refused otherwise;
  \<^verbatim>\<open>Signal(max=m)\<close> with an integer bound \<open>m\<close>, which gives a signal for the values
  below \<open>m\<close> when there are at least two of them; and \<^verbatim>\<open>Signal()\<close>, the signal of
  one bit. Shapes that are not integers are outside the model: a constructor of the
  library reaches \<open>Signal\<close> below only with an integer.
\<close>

definition Signal :: "int \<Rightarrow> pyerr + nat" where
  "Signal w =
     (if 0 \<le> w then Inr (nat w)
      else Inl (TypeError ''Width must be a non-negative integer''))"

definition Signal_max :: "int \<Rightarrow> pyerr + int" where
  "Signal_max m =
     (if 0 < m - 1 then Inr m
      else Inl (ValueError ''Lower bound should be less than higher bound''))"

definition Signal_default :: "pyerr + nat" where
  "Signal_default = Inr 1"

section \<open>coding.py: the constructors\<close>

text \<open>
  \<^verbatim>\<open>PrioritySelector.__init__\<close> (lines 112 to 115), called with an integer: it creates
  the two signals and stores the width; it has no check of its own.
\<close>

definition PrioritySelector_init :: "int \<Rightarrow> pyerr + PrioritySelector" where
  "PrioritySelector_init w =
     (case Signal w of
        Inl err \<Rightarrow> Inl err
      | Inr i_width \<Rightarrow>
          (case Signal w of
             Inl err \<Rightarrow> Inl err
           | Inr o_width \<Rightarrow> Inr \<lparr>width = i_width\<rparr>))"

text \<open>
  \<^verbatim>\<open>RoundRobinSelector.__init__\<close> (lines 271 to 281) checks the policy first, then the
  number of requests.
\<close>

definition RoundRobinSelector_init :: "pyval \<Rightarrow> pyval \<Rightarrow> pyerr + RoundRobinSelector" where
  "RoundRobinSelector_init n p =
     (case p of
        PyPolicy pol \<Rightarrow>
          (if \<not> isinstance_int n \<or> int_of n < 1
           then Inl (TypeError ''n_reqs must be a positive integer'')
           else (case Signal (int_of n) of
                   Inl err \<Rightarrow> Inl err
                 | Inr i_width \<Rightarrow>
                     (case Signal (int_of n) of
                        Inl err \<Rightarrow> Inl err
                      | Inr o_width \<Rightarrow> Inr \<lparr>n_reqs = i_width, policy = pol\<rparr>)))
      | _ \<Rightarrow> Inl (TypeError ''policy must be a RobinPolicy''))"

text \<open>
  \<^verbatim>\<open>RoundRobinEncoder.__init__\<close> (lines 324 to 331), called with an integer number of
  requests and any value as the policy: it stores both as they are and creates its
  signals, line by line; \<^verbatim>\<open>self.en\<close> exists when the policy equals
  \<^verbatim>\<open>RobinPolicy.CE\<close>.
  \<^verbatim>\<open>self.n_reqs = n_reqs
  self.policy = policy
  self.i = Signal(n_reqs)
  self.o = Signal(max=max(2,n_reqs))
  self.n = Signal()
  if policy == RobinPolicy.CE:
      self.en = Signal()\<close>
\<close>

record RoundRobinEncoder =
  enc_n_reqs :: int
  enc_policy :: pyval
  enc_has_en :: bool

definition RoundRobinEncoder_init :: "int \<Rightarrow> pyval \<Rightarrow> pyerr + RoundRobinEncoder" where
  "RoundRobinEncoder_init n p =
     (case Signal n of
        Inl err \<Rightarrow> Inl err
      | Inr i_width \<Rightarrow>
          (case Signal_max (max 2 n) of
             Inl err \<Rightarrow> Inl err
           | Inr o_bound \<Rightarrow>
               (case Signal_default of
                  Inl err \<Rightarrow> Inl err
                | Inr n_width \<Rightarrow>
                    (if p = PyPolicy CE
                     then (case Signal_default of
                             Inl err \<Rightarrow> Inl err
                           | Inr en_width \<Rightarrow>
                               Inr \<lparr>enc_n_reqs = n, enc_policy = p, enc_has_en = True\<rparr>)
                     else Inr \<lparr>enc_n_reqs = n, enc_policy = p, enc_has_en = False\<rparr>))))"

section \<open>arbiter.py\<close>

text \<open>
  \<^verbatim>\<open>ArbiterInterface.__init__(self, n_req)\<close> (lines 31 to 36). The argument of the model
  is the list of the positional arguments of a call, after the instance the call is bound
  to: the method takes one, and Python raises a TypeError for any other number.
\<close>

record ArbiterInterface =
  req_signal :: nat
  gnt_signal :: nat

definition ArbiterInterface_init :: "pyval list \<Rightarrow> pyerr + ArbiterInterface" where
  "ArbiterInterface_init args =
     (case args of
        [n_req] \<Rightarrow>
          (if \<not> isinstance_int n_req \<or> int_of n_req < 1
           then Inl (TypeError ''n_req must be a positive integer'')
           else (case Signal (int_of n_req) of
                   Inl err \<Rightarrow> Inl err
                 | Inr w \<Rightarrow> Inr \<lparr>req_signal = w, gnt_signal = w\<rparr>))
      | _ \<Rightarrow> Inl (TypeError ''__init__() takes 2 positional arguments''))"

text \<open>
  The four constructors begin with \<^verbatim>\<open>super().__init__(self, n_req)\<close> (lines 68, 116,
  158 and 197): a bound call that passes the instance again, so two positional arguments.
\<close>

definition PriorityArbiter_init :: "pyval \<Rightarrow> pyerr + ArbiterInterface" where
  "PriorityArbiter_init n_req = ArbiterInterface_init [PyObject, n_req]"

record RoundRobinArbiter = ArbiterInterface +
  arb_policy :: RobinPolicy

definition RoundRobinArbiter_init :: "pyval \<Rightarrow> pyval \<Rightarrow> pyerr + RoundRobinArbiter" where
  "RoundRobinArbiter_init n_req p =
     (case ArbiterInterface_init [PyObject, n_req] of
        Inl err \<Rightarrow> Inl err
      | Inr base \<Rightarrow>
          (case p of
             PyPolicy pol \<Rightarrow>
               Inr \<lparr>req_signal = req_signal base, gnt_signal = gnt_signal base, arb_policy = pol\<rparr>
           | _ \<Rightarrow> Inl (TypeError ''policy must be a RobinPolicy'')))"

record ProgPriorityArbiter = ArbiterInterface +
  pri :: "nat list"

definition ProgPriorityArbiter_init :: "pyval \<Rightarrow> pyval \<Rightarrow> pyerr + ProgPriorityArbiter" where
  "ProgPriorityArbiter_init n_req max_pri =
     (case ArbiterInterface_init [PyObject, n_req] of
        Inl err \<Rightarrow> Inl err
      | Inr base \<Rightarrow>
          (let max_pri = (if max_pri = PyNone then n_req else max_pri)
           in if \<not> isinstance_int max_pri \<or> int_of max_pri < 1
              then Inl (TypeError ''max_pri must be a positive integer'')
              else Inr \<lparr>req_signal = req_signal base, gnt_signal = gnt_signal base,
                        pri = replicate (nat (int_of n_req)) (nat (int_of max_pri))\<rparr>))"

record FairAmongEqualsArbiter = ArbiterInterface +
  fair_pri :: "nat list"

definition FairAmongEqualsArbiter_init :: "pyval \<Rightarrow> pyval \<Rightarrow> pyerr + FairAmongEqualsArbiter" where
  "FairAmongEqualsArbiter_init n_req max_pri =
     (case ArbiterInterface_init [PyObject, n_req] of
        Inl err \<Rightarrow> Inl err
      | Inr base \<Rightarrow>
          (let max_pri = (if max_pri = PyNone then n_req else max_pri)
           in if \<not> isinstance_int max_pri \<or> int_of max_pri < 1
              then Inl (TypeError ''max_pri must be a positive integer'')
              else Inr \<lparr>req_signal = req_signal base, gnt_signal = gnt_signal base,
                        fair_pri = replicate (nat (int_of n_req)) (nat (int_of max_pri))\<rparr>))"

text \<open>
  Modelled from the spec: the classes of the framework's values are not part of the
  sources at hand. A value is a bit vector (section 1 of the specification). The helpers
  of arbiter.py read the attribute \<^verbatim>\<open>nbits\<close> of their argument; of the values that
  reach them, a signal carries that attribute and an expression built by \<^verbatim>\<open>Cat\<close>, by a
  slice or by an operator carries none, so that reading it raises an AttributeError.
\<close>

datatype Value = Sig bits | Expr bits

fun bits_of :: "Value \<Rightarrow> bits" where
  "bits_of (Sig v) = v"
| "bits_of (Expr v) = v"

fun nbits :: "Value \<Rightarrow> pyerr + nat" where
  "nbits (Sig v) = Inr (length v)"
| "nbits (Expr v) = Inl (AttributeError ''nbits'')"

text \<open>
  The helpers of arbiter.py (lines 42 to 59), on the values of their arguments.
  \<^verbatim>\<open>def _smear_lx(sig):
      return Cat(sig[:i].bool() for i in range(sig.nbits))
  def _priority_sel(req):
      deny = _smear_lx(req)
      return req & ~deny
  def _rrobin_sel(req, prev_grant):
      req_above_prev = req & _smear_lx(prev_grant)
      req_unwrap = Cat(req_above_prev, req)
      grant_unwrapped = _priority_sel(req_unwrap)
      return grant_unwrap[:req.nbits] | grant_unwrap[req.nbits:]
  def _bitmap_mux(sel, data, width):
      return Cat((sel & Cat(data[i][j] for j in range(len(sel))).bool()) for i in range(width))\<close>
  In \<^verbatim>\<open>_rrobin_sel\<close> the argument of \<^verbatim>\<open>_priority_sel\<close> is the \<^verbatim>\<open>Cat\<close> of the line
  before, and the name \<^verbatim>\<open>grant_unwrap\<close> in the last line is bound nowhere (the line
  before binds \<^verbatim>\<open>grant_unwrapped\<close>). In \<^verbatim>\<open>_bitmap_mux\<close>, which reads only the
  length and the bits of its arguments, \<^verbatim>\<open>data\<close> is a Python list of vectors: both
  \<^verbatim>\<open>data[i]\<close> and the bit \<^verbatim>\<open>data[i][j]\<close> raise an IndexError out of range, and
  \<^verbatim>\<open>.bool()\<close> binds tighter than \<^verbatim>\<open>&\<close>.
\<close>

definition arbiter_smear_lx :: "Value \<Rightarrow> pyerr + Value" where
  "arbiter_smear_lx sig =
     (case nbits sig of
        Inl err \<Rightarrow> Inl err
      | Inr n \<Rightarrow> Inr (Expr (Cat (map (\<lambda>i. bool_v (take i (bits_of sig))) [0..<n]))))"

definition priority_sel :: "Value \<Rightarrow> pyerr + Value" where
  "priority_sel req =
     (case arbiter_smear_lx req of
        Inl err \<Rightarrow> Inl err
      | Inr deny \<Rightarrow> Inr (Expr (and_v (bits_of req) (not_v (bits_of deny)))))"

definition rrobin_sel :: "Value \<Rightarrow> Value \<Rightarrow> pyerr + Value" where
  "rrobin_sel req prev_grant =
     (case arbiter_smear_lx prev_grant of
        Inl err \<Rightarrow> Inl err
      | Inr smeared \<Rightarrow>
          (let req_above_prev = Expr (and_v (bits_of req) (bits_of smeared));
               req_unwrap = Expr (Cat [bits_of req_above_prev, bits_of req])
           in case priority_sel req_unwrap of
                Inl err \<Rightarrow> Inl err
              | Inr grant_unwrapped \<Rightarrow> Inl (NameError ''grant_unwrap'')))"

definition index_py :: "'a list \<Rightarrow> nat \<Rightarrow> pyerr + 'a" where
  "index_py xs i = (if i < length xs then Inr (xs ! i) else Inl (IndexError ''index out of range''))"

fun sequence_err :: "(pyerr + 'a) list \<Rightarrow> pyerr + 'a list" where
  "sequence_err [] = Inr []"
| "sequence_err (x # xs) =
     (case x of
        Inl err \<Rightarrow> Inl err
      | Inr v \<Rightarrow> (case sequence_err xs of Inl err \<Rightarrow> Inl err | Inr vs \<Rightarrow> Inr (v # vs)))"

definition bitmap_mux :: "bits \<Rightarrow> bits list \<Rightarrow> nat \<Rightarrow> pyerr + bits" where
  "bitmap_mux sel data w =
     (case sequence_err
             (map (\<lambda>i. case index_py data i of
                          Inl err \<Rightarrow> Inl err
                        | Inr row \<Rightarrow>
                            (case sequence_err (map (\<lambda>j. index_py row j) [0..<length sel]) of
                               Inl err \<Rightarrow> Inl err
                             | Inr bs \<Rightarrow> Inr (and_v sel (bool_v (Cat (map (\<lambda>b. [b]) bs))))))
                  [0..<w]) of
        Inl err \<Rightarrow> Inl err
      | Inr parts \<Rightarrow> Inr (Cat parts))"

text \<open>
  Lines 134 to 138 of \<^verbatim>\<open>RoundRobinArbiter.elaborate\<close>, the block that drives the output:
  \<^verbatim>\<open>with m.If(en):
      m.d.sync += grant_prev.eq(grant)
      m.d.comb += self.o.eq(grant)
  with m.Else():
      m.d.sync += self.o.eq(grant_prev)\<close>
  Modelled from the spec: what an assignment in a clock domain does belongs to the
  framework. By section 5 of the specification a combinational assignment shows in the
  same tick and a synchronous one in the next tick, and by section 9 the hold output of
  this implementation is "recomputed each tick with one extra tick of latency": in a tick
  without a combinational assignment the output shows the register that the synchronous
  assignment wrote. The arguments are the width of the signals, the values of
  \<^verbatim>\<open>en\<close> and \<^verbatim>\<open>grant\<close> in the tick, and the state: the register
  \<^verbatim>\<open>grant_prev\<close> and the register of the output. The result is the output of the tick
  and the state of the next tick.
\<close>

definition RoundRobinArbiter_If_Else ::
    "nat \<Rightarrow> bool \<Rightarrow> bits \<Rightarrow> bits \<times> bits \<Rightarrow> bits \<times> (bits \<times> bits)" where
  "RoundRobinArbiter_If_Else n en grant st =
     (let grant_prev = fst st; o_sync = snd st
      in if en
         then (assign n grant, (assign n grant, o_sync))
         else (o_sync, (grant_prev, assign n grant_prev)))"

section \<open>The rotating order of service\<close>

text \<open>
  The place of requester \<open>r\<close> in the rotating order that follows the last grant: 0 for
  the requester that a new round considers first. After no grant the order starts at
  requester 0; after a grant to \<open>k\<close> it starts at \<open>k + 1\<close> and wraps around.
\<close>

definition turn :: "nat \<Rightarrow> nat option \<Rightarrow> nat \<Rightarrow> nat" where
  "turn n lastg r =
     (case lastg of
        None \<Rightarrow> r
      | Some k \<Rightarrow> if k < r then r - k - 1 else n - 1 - k + r)"

section \<open>Facts about the bit-vector operations\<close>

lemma concat_singletons: "concat (map (\<lambda>i. [f i]) xs) = map f xs"
  by (induction xs) simp_all

lemma smear_lx_map: "smear_lx s = map (\<lambda>i. True \<in> set (take i s)) [0..<length s]"
  by (simp add: smear_lx_def Cat_def bool_v_def concat_singletons)

lemma length_smear_lx: "length (smear_lx s) = length s"
  by (simp add: smear_lx_map)

lemma in_set_take_iff: "i \<le> length s \<Longrightarrow> (True \<in> set (take i s)) = (\<exists>j<i. s ! j)"
  by (auto simp: in_set_conv_nth)

lemma nth_smear_lx: "i < length s \<Longrightarrow> smear_lx s ! i = (\<exists>j<i. s ! j)"
  by (simp add: smear_lx_map in_set_take_iff)

lemma and_v_same_length: "length a = length b \<Longrightarrow> and_v a b = map2 (\<and>) a b"
  by (simp add: and_v_def zext_def)

lemma or_v_same_length: "length a = length b \<Longrightarrow> or_v a b = map2 (\<or>) a b"
  by (simp add: or_v_def zext_def)

lemma assign_same_length: "length v = n \<Longrightarrow> assign n v = v"
  by (simp add: assign_def zext_def)

lemma length_onehot: "length (onehot n k) = n"
  by (simp add: onehot_def)

lemma nth_onehot: "i < n \<Longrightarrow> onehot n k ! i = (i = k)"
  by (cases "i = k") (simp_all add: onehot_def)

lemma length_zeros: "length (zeros n) = n"
  by (simp add: zeros_def)

lemma nth_zeros: "i < n \<Longrightarrow> zeros n ! i = False"
  by (simp add: zeros_def)

lemma length_PrioritySelector:
  "length R = width self \<Longrightarrow> length (PrioritySelector_elaborate self R) = width self"
  by (simp add: PrioritySelector_elaborate_def assign_same_length and_v_same_length
      not_v_def length_smear_lx)

lemma nth_PrioritySelector:
  "length R = width self \<Longrightarrow> i < width self \<Longrightarrow>
   PrioritySelector_elaborate self R ! i = (R ! i \<and> \<not> (\<exists>j<i. R ! j))"
  by (simp add: PrioritySelector_elaborate_def assign_same_length and_v_same_length
      not_v_def nth_smear_lx length_smear_lx)

section \<open>The rotation computes the winner of the specification\<close>

lemma find_upt_Some:
  "(find P [0..<n] = Some m) = (m < n \<and> P m \<and> (\<forall>j<m. \<not> P j))"
  by (auto simp: find_Some_iff)

lemma find_upt_None: "(find P [0..<n] = None) = (\<forall>j<n. \<not> P j)"
  by (auto simp: find_None_iff)

lemma length_RoundRobinSelector_grant:
  assumes "length i = n_reqs self" "length prev = n_reqs self"
  shows "length (RoundRobinSelector_grant self prev i) = n_reqs self"
  using assms
  by (simp add: RoundRobinSelector_grant_def Let_def Cat_def assign_same_length
      and_v_same_length length_smear_lx length_PrioritySelector or_v_same_length)

lemma nth_unwrapped_low:
  assumes "length i = n" "length prev = n" "m < n"
  shows "Cat [and_v i (smear_lx prev), i] ! m = (i ! m \<and> (\<exists>l<m. prev ! l))"
  using assms
  by (simp add: Cat_def and_v_same_length length_smear_lx nth_append nth_smear_lx)

lemma nth_unwrapped_high:
  assumes "length i = n" "length prev = n" "m < n"
  shows "Cat [and_v i (smear_lx prev), i] ! (n + m) = i ! m"
  using assms
  by (simp add: Cat_def and_v_same_length length_smear_lx nth_append)

lemma length_unwrapped:
  assumes "length i = n" "length prev = n"
  shows "length (Cat [and_v i (smear_lx prev), i]) = n * 2"
  using assms
  by (simp add: Cat_def and_v_same_length length_smear_lx)

lemma ex_less_double:
  "(\<exists>j<n + m. P j) = ((\<exists>j<n. P j) \<or> (\<exists>j<m. P (n + j)))" for n m :: nat
proof
  assume "\<exists>j<n + m. P j"
  then obtain j where j: "j < n + m" "P j" by blast
  show "(\<exists>j<n. P j) \<or> (\<exists>j<m. P (n + j))"
  proof (cases "j < n")
    case True with j show ?thesis by blast
  next
    case False
    then have "j - n < m" "n + (j - n) = j" using j by auto
    with j show ?thesis by metis
  qed
next
  assume "(\<exists>j<n. P j) \<or> (\<exists>j<m. P (n + j))"
  then show "\<exists>j<n + m. P j"
    by (metis add_less_cancel_left trans_less_add1)
qed

lemma nth_RoundRobinSelector_grant:
  assumes "length i = n_reqs self" "length prev = n_reqs self" "m < n_reqs self"
  shows "RoundRobinSelector_grant self prev i ! m =
     (i ! m \<and>
      (((\<exists>l<m. prev ! l) \<and> \<not> (\<exists>j<m. i ! j \<and> (\<exists>l<j. prev ! l))) \<or>
       (\<not> (\<exists>j<n_reqs self. i ! j \<and> (\<exists>l<j. prev ! l)) \<and> \<not> (\<exists>j<m. i ! j))))"
proof -
  let ?n = "n_reqs self"
  let ?u = "Cat [and_v i (smear_lx prev), i]"
  let ?psel = "\<lparr>width = ?n * 2\<rparr>"
  let ?o = "PrioritySelector_elaborate ?psel ?u"
  have lu: "length ?u = width ?psel" using assms by (simp add: length_unwrapped)
  have lo: "length ?o = ?n * 2" using length_PrioritySelector[OF lu] by simp
  have g: "RoundRobinSelector_grant self prev i = or_v (take ?n ?o) (drop ?n ?o)"
    using lu by (simp add: RoundRobinSelector_grant_def Let_def assign_same_length)
  have low: "\<And>j. j < ?n \<Longrightarrow> ?u ! j = (i ! j \<and> (\<exists>l<j. prev ! l))"
    using assms by (simp add: nth_unwrapped_low)
  have high: "\<And>j. j < ?n \<Longrightarrow> ?u ! (?n + j) = i ! j"
    using assms by (simp add: nth_unwrapped_high)
  have o1: "?o ! m = (?u ! m \<and> \<not> (\<exists>j<m. ?u ! j))"
    using nth_PrioritySelector[OF lu, of m] assms by simp
  have o2: "?o ! (?n + m) = (?u ! (?n + m) \<and> \<not> (\<exists>j<?n + m. ?u ! j))"
    using nth_PrioritySelector[OF lu, of "?n + m"] assms by simp
  have e1: "(\<exists>j<m. ?u ! j) = (\<exists>j<m. i ! j \<and> (\<exists>l<j. prev ! l))"
    using low assms(3) by (meson less_trans)
  have e2: "(\<exists>j<?n + m. ?u ! j) = ((\<exists>j<?n. i ! j \<and> (\<exists>l<j. prev ! l)) \<or> (\<exists>j<m. i ! j))"
    unfolding ex_less_double using low high assms(3) by (meson less_trans)
  have "RoundRobinSelector_grant self prev i ! m = (?o ! m \<or> ?o ! (?n + m))"
    using lo assms(3) by (simp add: g or_v_same_length)
  then show ?thesis
    unfolding o1 o2 e1 e2 using low[OF assms(3)] high[OF assms(3)] by auto
qed


lemma above_onehot:
  assumes "k < n" "j \<le> n"
  shows "(\<exists>l<j. onehot n k ! l) = (k < j)"
proof
  assume "\<exists>l<j. onehot n k ! l"
  then obtain l where "l < j" "onehot n k ! l" by blast
  with assms show "k < j" by (simp add: nth_onehot)
next
  assume "k < j"
  with assms have "onehot n k ! k" by (simp add: nth_onehot)
  with \<open>k < j\<close> show "\<exists>l<j. onehot n k ! l" by blast
qed

lemma above_zeros: "j \<le> n \<Longrightarrow> (\<exists>l<j. zeros n ! l) = False"
  by (simp add: nth_zeros)

lemma nth_grant_after_onehot:
  assumes "length i = n_reqs self" "k < n_reqs self" "m < n_reqs self"
  shows "RoundRobinSelector_grant self (onehot (n_reqs self) k) i ! m =
     (i ! m \<and>
      ((k < m \<and> \<not> (\<exists>j<m. i ! j \<and> k < j)) \<or>
       (\<not> (\<exists>j<n_reqs self. i ! j \<and> k < j) \<and> \<not> (\<exists>j<m. i ! j))))"
proof -
  let ?n = "n_reqs self"
  have a: "\<And>j. j \<le> ?n \<Longrightarrow> (\<exists>l<j. onehot ?n k ! l) = (k < j)"
    using assms(2) by (rule above_onehot)
  have b: "(\<exists>j<m. i ! j \<and> (\<exists>l<j. onehot ?n k ! l)) = (\<exists>j<m. i ! j \<and> k < j)"
    using a assms(3) by (metis less_imp_le_nat less_trans)
  have c: "(\<exists>j<?n. i ! j \<and> (\<exists>l<j. onehot ?n k ! l)) = (\<exists>j<?n. i ! j \<and> k < j)"
    using a by (metis less_imp_le_nat)
  show ?thesis
    using assms a[of m]
    by (simp add: nth_RoundRobinSelector_grant length_onehot b c)
qed

lemma nth_grant_after_zeros:
  assumes "length i = n_reqs self" "m < n_reqs self"
  shows "RoundRobinSelector_grant self (zeros (n_reqs self)) i ! m =
     (i ! m \<and> \<not> (\<exists>j<m. i ! j))"
proof -
  let ?n = "n_reqs self"
  have a: "\<And>j. j \<le> ?n \<Longrightarrow> (\<exists>l<j. zeros ?n ! l) = False"
    by (rule above_zeros)
  have b: "(\<exists>j<m. i ! j \<and> (\<exists>l<j. zeros ?n ! l)) = False"
    using a assms(2) by (metis less_imp_le_nat less_trans)
  have c: "(\<exists>j<?n. i ! j \<and> (\<exists>l<j. zeros ?n ! l)) = False"
    using a by (metis less_imp_le_nat)
  have d: "(\<exists>l<m. zeros ?n ! l) = False"
    using a[of m] assms(2) by simp
  show ?thesis
    using assms
    by (simp only: nth_RoundRobinSelector_grant length_zeros b c d) simp
qed

lemma nth_grant_vector:
  "m < n \<Longrightarrow> grant_vector n w ! m = (w = Some m)"
  by (cases w) (auto simp: grant_vector_def nth_zeros nth_onehot)

lemma length_grant_vector: "length (grant_vector n w) = n"
  by (cases w) (simp_all add: grant_vector_def length_zeros length_onehot)

lemma lowest_request_Some:
  "(lowest_request r = Some m) = (m < length r \<and> r ! m \<and> (\<forall>j<m. \<not> r ! j))"
  by (simp add: lowest_request_def find_upt_Some)

lemma lowest_request_None: "(lowest_request r = None) = (\<forall>j<length r. \<not> r ! j)"
  by (simp add: lowest_request_def find_upt_None)

lemma lowest_request_above_Some:
  "(lowest_request_above k r = Some m) =
     (m < length r \<and> k < m \<and> r ! m \<and> (\<forall>j<m. \<not> (k < j \<and> r ! j)))"
  by (auto simp: lowest_request_above_def find_upt_Some)

lemma lowest_request_above_None:
  "(lowest_request_above k r = None) = (\<forall>j<length r. \<not> (k < j \<and> r ! j))"
  by (simp add: lowest_request_above_def find_upt_None)

lemma rotation_winner_Some_iff:
  "(rotation_winner (Some k) r = Some m) =
     (m < length r \<and> r ! m \<and>
      ((k < m \<and> \<not> (\<exists>j<m. r ! j \<and> k < j)) \<or>
       (\<not> (\<exists>j<length r. r ! j \<and> k < j) \<and> \<not> (\<exists>j<m. r ! j))))"
proof (cases "lowest_request_above k r")
  case None
  then have "rotation_winner (Some k) r = lowest_request r"
    by (simp add: rotation_winner_def)
  moreover from None have n: "\<forall>j<length r. \<not> (k < j \<and> r ! j)"
    by (simp add: lowest_request_above_None)
  ultimately show ?thesis
    using n by (auto simp: lowest_request_Some)
next
  case (Some a)
  then have w: "rotation_winner (Some k) r = Some a"
    by (simp add: rotation_winner_def)
  from Some have a: "a < length r" "k < a" "r ! a" "\<forall>j<a. \<not> (k < j \<and> r ! j)"
    by (simp_all add: lowest_request_above_Some)
  show ?thesis
  proof
    assume "rotation_winner (Some k) r = Some m"
    with w have "m = a" by simp
    with a show "m < length r \<and> r ! m \<and>
      ((k < m \<and> \<not> (\<exists>j<m. r ! j \<and> k < j)) \<or>
       (\<not> (\<exists>j<length r. r ! j \<and> k < j) \<and> \<not> (\<exists>j<m. r ! j)))" by auto
  next
    assume r: "m < length r \<and> r ! m \<and>
      ((k < m \<and> \<not> (\<exists>j<m. r ! j \<and> k < j)) \<or>
       (\<not> (\<exists>j<length r. r ! j \<and> k < j) \<and> \<not> (\<exists>j<m. r ! j)))"
    with a have km: "k < m" "\<not> (\<exists>j<m. r ! j \<and> k < j)" by auto
    have "m = a"
    proof (rule linorder_cases[of m a])
      assume "m < a" with a(4) km r show ?thesis by auto
    next
      assume "a < m" with km(2) a show ?thesis by auto
    qed simp
    with w show "rotation_winner (Some k) r = Some m" by simp
  qed
qed

lemma RoundRobinSelector_grant_rotation:
  assumes "length i = n_reqs self" "lastg = None \<or> (\<exists>k<n_reqs self. lastg = Some k)"
  shows "RoundRobinSelector_grant self (grant_vector (n_reqs self) lastg) i =
     grant_vector (n_reqs self) (rotation_winner lastg i)"
proof (rule nth_equalityI)
  show "length (RoundRobinSelector_grant self (grant_vector (n_reqs self) lastg) i) =
     length (grant_vector (n_reqs self) (rotation_winner lastg i))"
    using assms(1) by (simp add: length_RoundRobinSelector_grant length_grant_vector)
next
  fix m assume "m < length (RoundRobinSelector_grant self (grant_vector (n_reqs self) lastg) i)"
  then have m: "m < n_reqs self"
    using assms(1) by (simp add: length_RoundRobinSelector_grant length_grant_vector)
  show "RoundRobinSelector_grant self (grant_vector (n_reqs self) lastg) i ! m =
     grant_vector (n_reqs self) (rotation_winner lastg i) ! m"
  proof (cases lastg)
    case None
    then show ?thesis
      using assms(1) m
      by (simp add: grant_vector_def nth_grant_after_zeros nth_grant_vector[unfolded grant_vector_def]
          rotation_winner_def lowest_request_Some)
  next
    case (Some k)
    with assms(2) have k: "k < n_reqs self" by auto
    show ?thesis
      using assms(1) m k Some nth_grant_vector[OF m, of "rotation_winner lastg i"]
      by (simp add: grant_vector_def nth_grant_after_onehot rotation_winner_Some_iff)
  qed
qed


lemma valid_last_iff: "valid_last n lastg = (lastg = None \<or> (\<exists>k<n. lastg = Some k))"
  by (cases lastg) (simp_all add: valid_last_def)

lemma popcount_replicate_False: "popcount (replicate n False) = 0"
  by (induction n) (simp_all add: popcount_def)

lemma popcount_zeros: "popcount (zeros n) = 0"
  by (simp add: zeros_def popcount_replicate_False)

lemma popcount_append: "popcount (a @ b) = popcount a + popcount b"
  by (simp add: popcount_def)

lemma popcount_onehot: "k < n \<Longrightarrow> popcount (onehot n k) = 1"
proof -
  assume k: "k < n"
  have "(replicate n False)[k := True] = replicate k False @ True # replicate (n - Suc k) False"
    using k by (simp add: upd_conv_take_nth_drop)
  then show ?thesis
    by (simp add: onehot_def popcount_append popcount_replicate_False)
       (simp add: popcount_def)
qed

lemma popcount_onehot_le: "popcount (onehot n k) \<le> 1"
proof (cases "k < n")
  case True then show ?thesis by (simp add: popcount_onehot)
next
  case False
  then have "onehot n k = zeros n" by (simp add: onehot_def zeros_def list_update_beyond)
  then show ?thesis by (simp add: popcount_zeros)
qed

lemma popcount_grant_vector: "popcount (grant_vector n w) \<le> 1"
  using popcount_onehot_le[of n] by (cases w) (simp_all add: grant_vector_def popcount_zeros)

lemma all_False_zeros: "(\<forall>j<length r. \<not> r ! j) = (r = zeros (length r))"
  by (auto simp: zeros_def list_eq_iff_nth_eq)

lemma PrioritySelector_is_lowest:
  assumes "length R = width self"
  shows "PrioritySelector_elaborate self R = grant_vector (width self) (lowest_request R)"
proof (rule nth_equalityI)
  show "length (PrioritySelector_elaborate self R) = length (grant_vector (width self) (lowest_request R))"
    using assms by (simp add: length_PrioritySelector length_grant_vector)
next
  fix i assume "i < length (PrioritySelector_elaborate self R)"
  then have i: "i < width self" using assms by (simp add: length_PrioritySelector)
  show "PrioritySelector_elaborate self R ! i = grant_vector (width self) (lowest_request R) ! i"
    using assms i by (simp add: nth_PrioritySelector nth_grant_vector lowest_request_Some)
qed

section \<open>One tick of RoundRobinSelector on the states a run reaches\<close>

lemma lowest_request_grant_vector:
  assumes "valid_last n lastg"
  shows "lowest_request (grant_vector n lastg) = lastg"
proof (cases lastg)
  case None
  then show ?thesis
    by (simp add: grant_vector_def lowest_request_None length_zeros nth_zeros)
next
  case (Some k)
  with assms have "k < n" by (simp add: valid_last_def)
  then have "lowest_request (onehot n k) = Some k"
    by (simp add: lowest_request_Some length_onehot nth_onehot)
  with Some show ?thesis by (simp add: grant_vector_def)
qed

lemma lowest_request_less: "lowest_request r = Some m \<Longrightarrow> m < length r"
  by (simp add: lowest_request_Some)

lemma lowest_request_above_less: "lowest_request_above k r = Some m \<Longrightarrow> m < length r"
  unfolding lowest_request_above_Some by (elim conjE)

lemma rotation_winner_less:
  assumes "rotation_winner lastg r = Some m"
  shows "m < length r"
proof (cases lastg)
  case None
  with assms show ?thesis by (simp add: rotation_winner_def lowest_request_less)
next
  case (Some k)
  show ?thesis
  proof (cases "lowest_request_above k r")
    case None
    with Some assms show ?thesis by (simp add: rotation_winner_def lowest_request_less)
  next
    case (Some a)
    with \<open>lastg = Some k\<close> assms have "a = m" by (simp add: rotation_winner_def)
    with Some show ?thesis by (simp add: lowest_request_above_less)
  qed
qed

lemma valid_last_rotation_winner: "valid_last (length r) (rotation_winner lastg r)"
proof (cases "rotation_winner lastg r")
  case None
  then show ?thesis by (simp add: valid_last_def)
next
  case (Some m)
  then have "m < length r" by (rule rotation_winner_less)
  with Some show ?thesis by (simp add: valid_last_def)
qed

lemma true_in_and_v:
  assumes "length a = length b"
  shows "(True \<in> set (and_v a b)) = (\<exists>j<length a. a ! j \<and> b ! j)"
proof -
  have "(True \<in> set (map2 (\<and>) a b)) = (\<exists>j<length (map2 (\<and>) a b). map2 (\<and>) a b ! j)"
    unfolding in_set_conv_nth by blast
  also have "\<dots> = (\<exists>j<length a. a ! j \<and> b ! j)"
  proof -
    have "\<And>j. j < length a \<Longrightarrow> map2 (\<and>) a b ! j = (a ! j \<and> b ! j)"
      using assms by simp
    moreover have "length (map2 (\<and>) a b) = length a"
      using assms by simp
    ultimately show ?thesis by metis
  qed
  finally show ?thesis using assms by (simp add: and_v_same_length)
qed

lemma RoundRobinSelector_en_WITHDRAW:
  assumes "policy self = WITHDRAW" "length i = length prev"
  shows "RoundRobinSelector_en self prev (i, e) = (\<not> (\<exists>j<length i. i ! j \<and> prev ! j))"
  using assms by (simp add: RoundRobinSelector_en_def bool_v_def not_v_def true_in_and_v)

lemma RoundRobinSelector_en_CE:
  assumes "policy self = CE"
  shows "RoundRobinSelector_en self prev (i, e) = e"
  using assms by (simp add: RoundRobinSelector_en_def)

lemma RoundRobinSelector_round:
  assumes "length i = n_reqs self" "valid_last (n_reqs self) lastg"
    and "RoundRobinSelector_en self (grant_vector (n_reqs self) lastg) (i, e)"
  shows "RoundRobinSelector_elaborate self (grant_vector (n_reqs self) lastg) (i, e) =
     (grant_vector (n_reqs self) (rotation_winner lastg i),
      grant_vector (n_reqs self) (rotation_winner lastg i))"
  using assms
  by (simp add: RoundRobinSelector_elaborate_def RoundRobinSelector_grant_rotation
      valid_last_iff assign_same_length length_grant_vector Let_def)

lemma RoundRobinSelector_hold:
  assumes "\<not> RoundRobinSelector_en self (grant_vector (n_reqs self) lastg) (i, e)"
  shows "RoundRobinSelector_elaborate self (grant_vector (n_reqs self) lastg) (i, e) =
     (grant_vector (n_reqs self) lastg, grant_vector (n_reqs self) lastg)"
  using assms
  by (simp add: RoundRobinSelector_elaborate_def assign_same_length length_grant_vector Let_def)

text \<open>The states a run can reach: the register holds no grant or one grant.\<close>

lemma RoundRobinSelector_step_valid:
  assumes "length (fst x) = n_reqs self" "valid_last (n_reqs self) lastg"
  shows "\<exists>lastg'. valid_last (n_reqs self) lastg' \<and>
     snd (RoundRobinSelector_elaborate self (grant_vector (n_reqs self) lastg) x) =
       grant_vector (n_reqs self) lastg'"
proof (cases "RoundRobinSelector_en self (grant_vector (n_reqs self) lastg) x")
  case True
  then have "snd (RoundRobinSelector_elaborate self (grant_vector (n_reqs self) lastg) x) =
     grant_vector (n_reqs self) (rotation_winner lastg (fst x))"
    using assms RoundRobinSelector_round[of "fst x" self lastg "snd x"] by simp
  moreover have "valid_last (n_reqs self) (rotation_winner lastg (fst x))"
    using valid_last_rotation_winner[of "fst x" lastg] assms(1) by simp
  ultimately show ?thesis by blast
next
  case False
  then have "snd (RoundRobinSelector_elaborate self (grant_vector (n_reqs self) lastg) x) =
     grant_vector (n_reqs self) lastg"
    using RoundRobinSelector_hold[of self lastg "fst x" "snd x"] by simp
  with assms(2) show ?thesis by blast
qed

lemma RoundRobinSelector_state_valid:
  assumes "fits self xs" "valid_last (n_reqs self) lastg"
  shows "\<exists>lastg'. valid_last (n_reqs self) lastg' \<and>
     RoundRobinSelector_state self (grant_vector (n_reqs self) lastg) xs =
       grant_vector (n_reqs self) lastg'"
  using assms
proof (induction xs arbitrary: lastg)
  case Nil
  then show ?case by auto
next
  case (Cons x xs)
  from Cons.prems have x: "length (fst x) = n_reqs self" and xs: "fits self xs"
    by (simp_all add: fits_def)
  from RoundRobinSelector_step_valid[OF x Cons.prems(2)]
  obtain l where l: "valid_last (n_reqs self) l"
    "snd (RoundRobinSelector_elaborate self (grant_vector (n_reqs self) lastg) x) =
       grant_vector (n_reqs self) l" by blast
  from Cons.IH[OF xs l(1)] l(2) show ?case by simp
qed

lemma RoundRobinSelector_reachable:
  assumes "fits self xs"
  shows "\<exists>lastg. valid_last (n_reqs self) lastg \<and>
     RoundRobinSelector_state self (RoundRobinSelector_reset self) xs =
       grant_vector (n_reqs self) lastg"
  using RoundRobinSelector_state_valid[OF assms, of None]
  by (simp add: RoundRobinSelector_reset_def grant_vector_def valid_last_def)

lemma RoundRobinSelector_output_valid:
  assumes "length (fst x) = n_reqs self" "valid_last (n_reqs self) lastg"
  shows "\<exists>w. valid_last (n_reqs self) w \<and>
     fst (RoundRobinSelector_elaborate self (grant_vector (n_reqs self) lastg) x) =
       grant_vector (n_reqs self) w"
proof (cases "RoundRobinSelector_en self (grant_vector (n_reqs self) lastg) x")
  case True
  then have "fst (RoundRobinSelector_elaborate self (grant_vector (n_reqs self) lastg) x) =
     grant_vector (n_reqs self) (rotation_winner lastg (fst x))"
    using assms RoundRobinSelector_round[of "fst x" self lastg "snd x"] by simp
  moreover have "valid_last (n_reqs self) (rotation_winner lastg (fst x))"
    using valid_last_rotation_winner[of "fst x" lastg] assms(1) by simp
  ultimately show ?thesis by blast
next
  case False
  then have "fst (RoundRobinSelector_elaborate self (grant_vector (n_reqs self) lastg) x) =
     grant_vector (n_reqs self) lastg"
    using RoundRobinSelector_hold[of self lastg "fst x" "snd x"] by simp
  with assms(2) show ?thesis by blast
qed

lemma length_assign: "length (assign n v) = n"
  by (simp add: assign_def zext_def)

lemma lowest_request_requested: "lowest_request r = Some m \<Longrightarrow> r ! m"
  unfolding lowest_request_Some by (elim conjE)

lemma lowest_request_above_requested: "lowest_request_above k r = Some m \<Longrightarrow> r ! m"
  unfolding lowest_request_above_Some by (elim conjE)

lemma rotation_winner_requested:
  assumes "rotation_winner lastg r = Some m"
  shows "r ! m"
proof (cases lastg)
  case None
  with assms show ?thesis by (simp add: rotation_winner_def lowest_request_requested)
next
  case (Some k)
  show ?thesis
  proof (cases "lowest_request_above k r")
    case None
    with Some assms show ?thesis by (simp add: rotation_winner_def lowest_request_requested)
  next
    case (Some a)
    with \<open>lastg = Some k\<close> assms have "a = m" by (simp add: rotation_winner_def)
    with Some show ?thesis by (simp add: lowest_request_above_requested)
  qed
qed


lemma RoundRobinSelector_CE_disabled:
  assumes "policy self = CE" "length st = n_reqs self"
  shows "RoundRobinSelector_elaborate self st (i, False) = (st, st)"
  using assms
  by (simp add: RoundRobinSelector_elaborate_def RoundRobinSelector_en_CE assign_same_length Let_def)

lemma RoundRobinSelector_CE_frozen_run:
  assumes "policy self = CE" "length st = n_reqs self" "list_all (\<lambda>x. \<not> snd x) ys"
  shows "RoundRobinSelector_outputs self st ys = replicate (length ys) st \<and>
         RoundRobinSelector_state self st ys = st"
  using assms(3)
proof (induction ys)
  case Nil
  then show ?case by simp
next
  case (Cons y ys)
  then have y: "y = (fst y, False)" and ys: "list_all (\<lambda>x. \<not> snd x) ys"
    by (simp_all add: prod_eq_iff)
  have "RoundRobinSelector_elaborate self st y = (st, st)"
    using RoundRobinSelector_CE_disabled[OF assms(1,2), of "fst y"] y by simp
  with Cons.IH[OF ys] show ?case by simp
qed

lemma RoundRobinSelector_output_is_next_state:
  assumes "length st = n_reqs self"
  shows "fst (RoundRobinSelector_elaborate self st x) = snd (RoundRobinSelector_elaborate self st x)"
  using assms
  by (simp add: RoundRobinSelector_elaborate_def assign_same_length Let_def)

lemma length_RoundRobinSelector_next:
  assumes "length st = n_reqs self"
  shows "length (snd (RoundRobinSelector_elaborate self st x)) = n_reqs self"
  using assms
  by (simp add: RoundRobinSelector_elaborate_def length_assign Let_def)


lemma RoundRobinSelector_round_reachable:
  assumes "fits self xs" and "length i = n_reqs self"
    and "st = RoundRobinSelector_state self (RoundRobinSelector_reset self) xs"
    and "RoundRobinSelector_en self st (i, e)"
  shows "RoundRobinSelector_elaborate self st (i, e) =
           (grant_vector (n_reqs self) (rotation_winner (lowest_request st) i),
            grant_vector (n_reqs self) (rotation_winner (lowest_request st) i)) \<and>
         (i = zeros (n_reqs self) \<longrightarrow>
            fst (RoundRobinSelector_elaborate self st (i, e)) = zeros (n_reqs self))"
proof -
  from RoundRobinSelector_reachable[OF assms(1)] assms(3)
  obtain lastg where l: "valid_last (n_reqs self) lastg" "st = grant_vector (n_reqs self) lastg"
    by auto
  have lr: "lowest_request st = lastg"
    using l by (simp add: lowest_request_grant_vector)
  have r: "RoundRobinSelector_elaborate self st (i, e) =
           (grant_vector (n_reqs self) (rotation_winner lastg i),
            grant_vector (n_reqs self) (rotation_winner lastg i))"
    using RoundRobinSelector_round[OF assms(2) l(1), of e] assms(4) l(2) by simp
  have z: "i = zeros (n_reqs self) \<Longrightarrow> rotation_winner lastg i = None"
  proof -
    assume iz: "i = zeros (n_reqs self)"
    have "rotation_winner lastg i \<noteq> Some m" for m
    proof
      assume "rotation_winner lastg i = Some m"
      then have "m < length i" "i ! m"
        by (simp_all add: rotation_winner_less rotation_winner_requested)
      with iz show False by (simp add: length_zeros nth_zeros)
    qed
    then show ?thesis by (cases "rotation_winner lastg i") auto
  qed
  have "i = zeros (n_reqs self) \<longrightarrow>
            fst (RoundRobinSelector_elaborate self st (i, e)) = zeros (n_reqs self)"
  proof
    assume "i = zeros (n_reqs self)"
    then have "rotation_winner lastg i = None" by (rule z)
    then show "fst (RoundRobinSelector_elaborate self st (i, e)) = zeros (n_reqs self)"
      by (simp add: r grant_vector_def)
  qed
  with r lr show ?thesis by simp
qed

section \<open>At most one bit is granted\<close>

lemma priority_sel_Sig:
  "priority_sel (Sig req) = Inr (Expr (PrioritySelector_elaborate \<lparr>width = length req\<rparr> req))"
  by (simp add: priority_sel_def arbiter_smear_lx_def PrioritySelector_elaborate_def smear_lx_def
      assign_same_length and_v_same_length not_v_def Cat_def bool_v_def concat_singletons Let_def)

lemma priority_sel_Expr: "priority_sel (Expr v) = Inl (AttributeError ''nbits'')"
  by (simp add: priority_sel_def arbiter_smear_lx_def)

lemma popcount_PrioritySelector:
  assumes "length R = width self"
  shows "popcount (PrioritySelector_elaborate self R) \<le> 1"
  using assms popcount_grant_vector[of "width self" "lowest_request R"]
  by (simp add: PrioritySelector_is_lowest)

lemma rrobin_sel_raises: "rrobin_sel req prev_grant = Inl (AttributeError ''nbits'')"
  by (cases prev_grant) (simp_all add: rrobin_sel_def arbiter_smear_lx_def priority_sel_Expr Let_def)


section \<open>Every round brings a waiting requester closer to its turn\<close>

lemma turn_less:
  assumes "r < n" "valid_last n lastg"
  shows "turn n lastg r < n"
  using assms by (cases lastg) (auto simp: turn_def valid_last_def)

lemma lowest_request_exists:
  assumes "r < length i" "i ! r"
  shows "\<exists>g. lowest_request i = Some g \<and> g \<le> r"
proof (cases "lowest_request i")
  case None
  with assms show ?thesis by (simp add: lowest_request_None)
next
  case (Some g)
  then have g: "\<forall>j<g. \<not> i ! j" by (simp add: lowest_request_Some)
  have "g \<le> r"
  proof (rule ccontr)
    assume "\<not> g \<le> r"
    then have "r < g" by simp
    with g assms(2) show False by blast
  qed
  with Some show ?thesis by simp
qed

lemma rotation_winner_progress:
  assumes "r < length i" "i ! r" "valid_last (length i) lastg"
  shows "\<exists>g. rotation_winner lastg i = Some g \<and>
     (g = r \<or> turn (length i) (Some g) r < turn (length i) lastg r)"
proof (cases lastg)
  case None
  from lowest_request_exists[OF assms(1,2)]
  obtain g where g: "lowest_request i = Some g" "g \<le> r" by blast
  have "g = r \<or> turn (length i) (Some g) r < turn (length i) None r"
    using g(2) by (auto simp: turn_def)
  with g(1) None show ?thesis by (simp add: rotation_winner_def)
next
  case (Some k)
  with assms(3) have k: "k < length i" by (simp add: valid_last_def)
  show ?thesis
  proof (cases "lowest_request_above k i")
    case None
    then have "\<not> (k < r \<and> i ! r)"
      using assms(1) by (simp add: lowest_request_above_None)
    with assms(2) have rk: "r \<le> k" by simp
    from lowest_request_exists[OF assms(1,2)]
    obtain g where g: "lowest_request i = Some g" "g \<le> r" by blast
    have "g = r \<or> turn (length i) (Some g) r < turn (length i) (Some k) r"
      using g(2) rk k by (auto simp: turn_def)
    with g(1) None Some show ?thesis by (simp add: rotation_winner_def)
  next
    case (Some g)
    then have g: "g < length i" "k < g" "i ! g" "\<forall>j<g. \<not> (k < j \<and> i ! j)"
      by (simp_all add: lowest_request_above_Some)
    have w: "rotation_winner lastg i = Some g"
      using Some \<open>lastg = Some k\<close> by (simp add: rotation_winner_def)
    have "g = r \<or> turn (length i) (Some g) r < turn (length i) (Some k) r"
    proof (cases "k < r")
      case True
      have "g \<le> r"
      proof (rule ccontr)
        assume "\<not> g \<le> r"
        then have "r < g" by simp
        with g(4) True assms(2) show False by blast
      qed
      with True g(2) show ?thesis by (auto simp: turn_def)
    next
      case False
      with g(1,2) k show ?thesis by (auto simp: turn_def)
    qed
    with w \<open>lastg = Some k\<close> show ?thesis by simp
  qed
qed

lemma RoundRobinSelector_rounds_hold:
  assumes "\<not> RoundRobinSelector_en self (grant_vector (n_reqs self) lastg) x"
  shows "RoundRobinSelector_rounds self (grant_vector (n_reqs self) lastg) (x # xs) =
     RoundRobinSelector_rounds self (grant_vector (n_reqs self) lastg) xs"
  using assms RoundRobinSelector_hold[of self lastg "fst x" "snd x"] by simp

lemma RoundRobinSelector_rounds_round:
  assumes "RoundRobinSelector_en self (grant_vector (n_reqs self) lastg) x"
    "length (fst x) = n_reqs self" "valid_last (n_reqs self) lastg"
  shows "RoundRobinSelector_rounds self (grant_vector (n_reqs self) lastg) (x # xs) =
     grant_vector (n_reqs self) (rotation_winner lastg (fst x)) #
     RoundRobinSelector_rounds self
       (grant_vector (n_reqs self) (rotation_winner lastg (fst x))) xs"
  using assms RoundRobinSelector_round[of "fst x" self lastg "snd x"] by simp

lemma RoundRobinSelector_served_within:
  assumes "r < n_reqs self"
  shows "fits self ys \<Longrightarrow> list_all (\<lambda>x. fst x ! r) ys \<Longrightarrow> valid_last (n_reqs self) lastg \<Longrightarrow>
     turn (n_reqs self) lastg r < m \<Longrightarrow>
     m \<le> length (RoundRobinSelector_rounds self (grant_vector (n_reqs self) lastg) ys) \<Longrightarrow>
     onehot (n_reqs self) r \<in>
       set (take m (RoundRobinSelector_rounds self (grant_vector (n_reqs self) lastg) ys))"
proof (induction ys arbitrary: lastg m)
  case Nil
  then show ?case by simp
next
  case (Cons x ys)
  let ?n = "n_reqs self"
  from Cons.prems(1) have x: "length (fst x) = ?n" and fys: "fits self ys"
    by (simp_all add: fits_def)
  from Cons.prems(2) have rx: "fst x ! r" and rys: "list_all (\<lambda>x. fst x ! r) ys"
    by simp_all
  show ?case
  proof (cases "RoundRobinSelector_en self (grant_vector ?n lastg) x")
    case False
    then have eq: "RoundRobinSelector_rounds self (grant_vector ?n lastg) (x # ys) =
       RoundRobinSelector_rounds self (grant_vector ?n lastg) ys"
      by (rule RoundRobinSelector_rounds_hold)
    from Cons.prems(5)
    have "m \<le> length (RoundRobinSelector_rounds self (grant_vector ?n lastg) ys)"
      unfolding eq .
    from Cons.IH[OF fys rys Cons.prems(3) Cons.prems(4) this]
    show ?thesis unfolding eq .
  next
    case True
    let ?w = "rotation_winner lastg (fst x)"
    have eq: "RoundRobinSelector_rounds self (grant_vector ?n lastg) (x # ys) =
       grant_vector ?n ?w # RoundRobinSelector_rounds self (grant_vector ?n ?w) ys"
      using True x Cons.prems(3) by (rule RoundRobinSelector_rounds_round)
    from Cons.prems(4) obtain m' where m: "m = Suc m'" by (cases m) auto
    from rotation_winner_progress[of r "fst x" lastg] assms x rx Cons.prems(3)
    obtain g where g: "?w = Some g" "g = r \<or> turn ?n (Some g) r < turn ?n lastg r"
      by auto
    show ?thesis
    proof (cases "g = r")
      case True
      with g(1) have "grant_vector ?n ?w = onehot ?n r" by (simp add: grant_vector_def)
      with m show ?thesis unfolding eq by simp
    next
      case False
      with g(2) Cons.prems(4) m have t: "turn ?n ?w r < m'" using g(1) by simp
      have v: "valid_last ?n ?w"
        using valid_last_rotation_winner[of "fst x" lastg] x by simp
      from Cons.prems(5) m
      have len: "m' \<le> length (RoundRobinSelector_rounds self (grant_vector ?n ?w) ys)"
        unfolding eq by simp
      from Cons.IH[OF fys rys v t len] m show ?thesis unfolding eq by simp
    qed
  qed
qed


section \<open>The constructors\<close>

lemma ArbiterInterface_init_two_args:
  "ArbiterInterface_init [a, b] = Inl (TypeError ''__init__() takes 2 positional arguments'')"
  by (simp add: ArbiterInterface_init_def)

lemma Signal_positive:
  "1 \<le> int_of n \<Longrightarrow> Signal (int_of n) = Inr (nat (int_of n))"
  by (simp add: Signal_def)

lemma RoundRobinSelector_init_policy:
  "(\<forall>pol. p \<noteq> PyPolicy pol) \<Longrightarrow>
   RoundRobinSelector_init n p = Inl (TypeError ''policy must be a RobinPolicy'')"
  by (cases p) (simp_all add: RoundRobinSelector_init_def)

lemma RoundRobinSelector_init_n_reqs:
  "\<not> (isinstance_int n \<and> 1 \<le> int_of n) \<Longrightarrow>
   RoundRobinSelector_init n (PyPolicy pol) = Inl (TypeError ''n_reqs must be a positive integer'')"
  by (auto simp: RoundRobinSelector_init_def)

lemma RoundRobinSelector_init_valid:
  "isinstance_int n \<Longrightarrow> 1 \<le> int_of n \<Longrightarrow>
   RoundRobinSelector_init n (PyPolicy pol) = Inr \<lparr>n_reqs = nat (int_of n), policy = pol\<rparr>"
  by (simp add: RoundRobinSelector_init_def Signal_positive)

lemma positive_int_cases:
  "(isinstance_int n \<and> 1 \<le> int_of n) = ((\<exists>k\<ge>1. n = PyInt k) \<or> n = PyBool True)"
  by (cases n) auto

lemma RoundRobinSelector_served_in_n_rounds:
  assumes "fits self xs"
    and "st = RoundRobinSelector_state self (RoundRobinSelector_reset self) xs"
    and "fits self ys" and "r < n_reqs self" and "list_all (\<lambda>x. fst x ! r) ys"
    and "n_reqs self \<le> length (RoundRobinSelector_rounds self st ys)"
  shows "onehot (n_reqs self) r \<in> set (take (n_reqs self) (RoundRobinSelector_rounds self st ys))"
proof -
  from RoundRobinSelector_reachable[OF assms(1)] assms(2)
  obtain lastg where l: "valid_last (n_reqs self) lastg" "st = grant_vector (n_reqs self) lastg"
    by auto
  have t: "turn (n_reqs self) lastg r < n_reqs self"
    using assms(4) l(1) by (rule turn_less)
  from RoundRobinSelector_served_within[OF assms(4) assms(3) assms(5) l(1) t] assms(6) l(2)
  show ?thesis by simp
qed

section \<open>Claims\<close>

text \<open>
  C1. Every grant vector of coding.py has at most one set bit: the output of
  PrioritySelector on any input of its width, and the output of RoundRobinSelector, and
  its register, under either policy, in every state that a run from the reset state
  reaches and for every input of the tick. The arbiters of arbiter.py have no grant
  output to bound: the construction of RoundRobinArbiter, of ProgPriorityArbiter and of
  FairAmongEqualsArbiter raises a TypeError for every argument, because
  \<^verbatim>\<open>super().__init__(self, n_req)\<close> passes the instance twice.
\<close>

theorem grant_at_most_one_bit_in_coding_only:
  "(length R = width psel \<longrightarrow> popcount (PrioritySelector_elaborate psel R) \<le> 1) \<and>
   (fits self xs \<and> length (fst x) = n_reqs self \<longrightarrow>
      popcount (fst (RoundRobinSelector_elaborate self
        (RoundRobinSelector_state self (RoundRobinSelector_reset self) xs) x)) \<le> 1 \<and>
      popcount (RoundRobinSelector_state self (RoundRobinSelector_reset self) xs) \<le> 1) \<and>
   RoundRobinArbiter_init n_req p =
     Inl (TypeError ''__init__() takes 2 positional arguments'') \<and>
   ProgPriorityArbiter_init n_req max_pri =
     Inl (TypeError ''__init__() takes 2 positional arguments'') \<and>
   FairAmongEqualsArbiter_init n_req max_pri =
     Inl (TypeError ''__init__() takes 2 positional arguments'')"
proof (intro conjI impI)
  assume "length R = width psel"
  then show "popcount (PrioritySelector_elaborate psel R) \<le> 1"
    by (rule popcount_PrioritySelector)
next
  assume a: "fits self xs \<and> length (fst x) = n_reqs self"
  then obtain lastg where l: "valid_last (n_reqs self) lastg"
    "RoundRobinSelector_state self (RoundRobinSelector_reset self) xs = grant_vector (n_reqs self) lastg"
    using RoundRobinSelector_reachable[of self xs] by blast
  from a RoundRobinSelector_output_valid[OF _ l(1), of x]
  obtain w where "fst (RoundRobinSelector_elaborate self (grant_vector (n_reqs self) lastg) x) =
       grant_vector (n_reqs self) w" by blast
  with l(2) popcount_grant_vector[of "n_reqs self" w]
  show "popcount (fst (RoundRobinSelector_elaborate self
        (RoundRobinSelector_state self (RoundRobinSelector_reset self) xs) x)) \<le> 1"
    by simp
  from l(2) popcount_grant_vector[of "n_reqs self" lastg]
  show "popcount (RoundRobinSelector_state self (RoundRobinSelector_reset self) xs) \<le> 1"
    by simp
next
  show "RoundRobinArbiter_init n_req p =
     Inl (TypeError ''__init__() takes 2 positional arguments'')"
    by (simp add: RoundRobinArbiter_init_def ArbiterInterface_init_two_args)
  show "ProgPriorityArbiter_init n_req max_pri =
     Inl (TypeError ''__init__() takes 2 positional arguments'')"
    by (simp add: ProgPriorityArbiter_init_def ArbiterInterface_init_two_args)
  show "FairAmongEqualsArbiter_init n_req max_pri =
     Inl (TypeError ''__init__() takes 2 positional arguments'')"
    by (simp add: FairAmongEqualsArbiter_init_def ArbiterInterface_init_two_args)
qed

theorem grant_at_most_one_bit_in_coding_only_witness:
  "length [True, True, True] = width \<lparr>width = 3\<rparr> \<and>
   popcount (PrioritySelector_elaborate \<lparr>width = 3\<rparr> [True, True, True]) \<le> 1 \<and>
   PrioritySelector_elaborate \<lparr>width = 3\<rparr> [True, True, True] = [True, False, False] \<and>
   fits \<lparr>n_reqs = 3, policy = WITHDRAW\<rparr> [([True, True, True], False), ([False, True, True], False)] \<and>
   length (fst ([True, True, True], False)) = n_reqs \<lparr>n_reqs = 3, policy = WITHDRAW\<rparr> \<and>
   popcount (fst (RoundRobinSelector_elaborate \<lparr>n_reqs = 3, policy = WITHDRAW\<rparr>
     (RoundRobinSelector_state \<lparr>n_reqs = 3, policy = WITHDRAW\<rparr>
        (RoundRobinSelector_reset \<lparr>n_reqs = 3, policy = WITHDRAW\<rparr>)
        [([True, True, True], False), ([False, True, True], False)])
     ([True, True, True], False))) \<le> 1 \<and>
   RoundRobinSelector_state \<lparr>n_reqs = 3, policy = WITHDRAW\<rparr>
        (RoundRobinSelector_reset \<lparr>n_reqs = 3, policy = WITHDRAW\<rparr>)
        [([True, True, True], False), ([False, True, True], False)] = [False, True, False] \<and>
   FairAmongEqualsArbiter_init (PyInt 2) PyNone =
     Inl (TypeError ''__init__() takes 2 positional arguments'')"
proof -
  let ?s = "\<lparr>n_reqs = 3, policy = WITHDRAW\<rparr>"
  let ?xs = "[([True, True, True], False), ([False, True, True], False)]"
  have a: "length [True, True, True] = width \<lparr>width = 3\<rparr>" by simp
  have b: "fits ?s ?xs" by code_simp
  have c: "length (fst ([True, True, True], False)) = n_reqs ?s" by simp
  have v1: "PrioritySelector_elaborate \<lparr>width = 3\<rparr> [True, True, True] = [True, False, False]"
    by code_simp
  have v2: "RoundRobinSelector_state ?s (RoundRobinSelector_reset ?s) ?xs = [False, True, False]"
    by code_simp
  note t = grant_at_most_one_bit_in_coding_only[of "[True, True, True]" "\<lparr>width = 3\<rparr>" ?s ?xs
      "([True, True, True], False)" "PyInt 2" "PyPolicy CE" PyNone]
  from t a have 1: "popcount (PrioritySelector_elaborate \<lparr>width = 3\<rparr> [True, True, True]) \<le> 1"
    by blast
  from t b c have 2: "popcount (fst (RoundRobinSelector_elaborate ?s
     (RoundRobinSelector_state ?s (RoundRobinSelector_reset ?s) ?xs)
     ([True, True, True], False))) \<le> 1" by blast
  from t have 3: "FairAmongEqualsArbiter_init (PyInt 2) PyNone =
     Inl (TypeError ''__init__() takes 2 positional arguments'')" by blast
  from a 1 v1 b c 2 v2 3 show ?thesis by blast
qed

text \<open>
  C2. For every width \<open>W \<ge> 1\<close> and every input \<open>R\<close> of that width, the output \<open>O\<close> of
  PrioritySelector satisfies \<open>O[i] = R[i] AND NOT OR(R[0..i-1])\<close>; it is zero when \<open>R\<close> is
  zero, and otherwise has exactly one set bit, at the lowest index at which \<open>R\<close> is set.
  The output is a function of the input of the same tick alone. The witness is the
  example of the specification: width 4, \<open>R = 0b0110\<close> gives \<open>O = 0b0010\<close>.
\<close>

theorem PrioritySelector_lowest_set_bit:
  assumes "1 \<le> W" and "width self = W" and "length R = W"
  shows "(\<forall>i<W. PrioritySelector_elaborate self R ! i = (R ! i \<and> \<not> (\<exists>j<i. R ! j))) \<and>
         (R = zeros W \<longrightarrow> PrioritySelector_elaborate self R = zeros W) \<and>
         (R \<noteq> zeros W \<longrightarrow>
            (\<exists>m<W. R ! m \<and> (\<forall>j<m. \<not> R ! j) \<and>
                   PrioritySelector_elaborate self R = onehot W m \<and>
                   popcount (PrioritySelector_elaborate self R) = 1))"
proof (intro conjI impI allI)
  fix i assume "i < W"
  then show "PrioritySelector_elaborate self R ! i = (R ! i \<and> \<not> (\<exists>j<i. R ! j))"
    using assms by (simp add: nth_PrioritySelector)
next
  assume "R = zeros W"
  then have "lowest_request R = None"
    using assms(3) all_False_zeros[of R] by (simp add: lowest_request_None)
  then show "PrioritySelector_elaborate self R = zeros W"
    using assms by (simp add: PrioritySelector_is_lowest grant_vector_def)
next
  assume nz: "R \<noteq> zeros W"
  then have "lowest_request R \<noteq> None"
    using assms(3) all_False_zeros[of R] by (simp add: lowest_request_None)
  then obtain m where m: "lowest_request R = Some m" by blast
  then have p: "m < W" "R ! m" "\<forall>j<m. \<not> R ! j"
    using assms(3) by (simp_all add: lowest_request_Some)
  have "PrioritySelector_elaborate self R = onehot W m"
    using assms m by (simp add: PrioritySelector_is_lowest grant_vector_def)
  with p show "\<exists>m<W. R ! m \<and> (\<forall>j<m. \<not> R ! j) \<and>
                   PrioritySelector_elaborate self R = onehot W m \<and>
                   popcount (PrioritySelector_elaborate self R) = 1"
    by (auto simp: popcount_onehot)
qed

theorem PrioritySelector_lowest_set_bit_witness:
  "(1::nat) \<le> 4 \<and> width \<lparr>width = 4\<rparr> = 4 \<and> length [False, True, True, False] = 4 \<and>
   [False, True, True, False] \<noteq> zeros 4 \<and>
   PrioritySelector_elaborate \<lparr>width = 4\<rparr> [False, True, True, False] = [False, True, False, False] \<and>
   popcount (PrioritySelector_elaborate \<lparr>width = 4\<rparr> [False, True, True, False]) = 1 \<and>
   PrioritySelector_elaborate \<lparr>width = 4\<rparr> (zeros 4) = zeros 4"
  using PrioritySelector_lowest_set_bit [of 4 "\<lparr>width = 4\<rparr>" "[False, True, True, False]"]
    PrioritySelector_lowest_set_bit [of 4 "\<lparr>width = 4\<rparr>" "zeros 4"]
  by (simp add: PrioritySelector_elaborate_def smear_lx_def Cat_def bool_v_def and_v_def
      not_v_def assign_def zext_def zeros_def popcount_def upt_rec eval_nat_numeral)

text \<open>
  C3. RoundRobinSelector, on a tick on which a new round of arbitration runs, from any
  state a run reaches from the reset state (the reset state itself included): the output,
  which is also committed to the register, is the grant of \<open>rotation_winner\<close> for the
  index recorded in the register (\<open>lowest_request st\<close>, none for the all-zero register):
  one-hot at the lowest set request bit strictly above that index when there is one,
  otherwise one-hot at the lowest set request bit, and zero when no request is set.
\<close>

theorem RoundRobinSelector_fresh_grant:
  assumes "fits self xs" and "length i = n_reqs self"
    and "st = RoundRobinSelector_state self (RoundRobinSelector_reset self) xs"
    and "RoundRobinSelector_en self st (i, e)"
  shows "RoundRobinSelector_elaborate self st (i, e) =
           (grant_vector (n_reqs self) (rotation_winner (lowest_request st) i),
            grant_vector (n_reqs self) (rotation_winner (lowest_request st) i)) \<and>
         (i = zeros (n_reqs self) \<longrightarrow>
            fst (RoundRobinSelector_elaborate self st (i, e)) = zeros (n_reqs self))"
  using assms by (rule RoundRobinSelector_round_reachable)

theorem RoundRobinSelector_fresh_grant_witness:
  "fits \<lparr>n_reqs = 4, policy = CE\<rparr> [([False, True, False, False], True)] \<and>
   length [True, False, False, True] = n_reqs \<lparr>n_reqs = 4, policy = CE\<rparr> \<and>
   RoundRobinSelector_state \<lparr>n_reqs = 4, policy = CE\<rparr>
      (RoundRobinSelector_reset \<lparr>n_reqs = 4, policy = CE\<rparr>)
      [([False, True, False, False], True)] = [False, True, False, False] \<and>
   RoundRobinSelector_en \<lparr>n_reqs = 4, policy = CE\<rparr> [False, True, False, False]
      ([True, False, False, True], True) \<and>
   RoundRobinSelector_elaborate \<lparr>n_reqs = 4, policy = CE\<rparr> [False, True, False, False]
      ([True, False, False, True], True) =
     ([False, False, False, True], [False, False, False, True])"
proof -
  let ?s = "\<lparr>n_reqs = 4, policy = CE\<rparr>"
  have a: "fits ?s [([False, True, False, False], True)]" by code_simp
  have b: "length [True, False, False, True] = n_reqs ?s" by simp
  have c: "[False, True, False, False] =
     RoundRobinSelector_state ?s (RoundRobinSelector_reset ?s) [([False, True, False, False], True)]"
    by code_simp
  have d: "RoundRobinSelector_en ?s [False, True, False, False] ([True, False, False, True], True)"
    by code_simp
  have v: "grant_vector (n_reqs ?s)
      (rotation_winner (lowest_request [False, True, False, False]) [True, False, False, True]) =
     [False, False, False, True]" by code_simp
  from RoundRobinSelector_fresh_grant[OF a b c d] a b c[symmetric] d v
  show ?thesis by simp
qed


text \<open>
  C4. RoundRobinSelector under the policy WITHDRAW, in any reachable state: when the
  register and the request vector have a set bit in common the output is the register and
  the register is kept; otherwise the output is the freshly arbitrated grant, which is
  committed. From the reset state at width 2 the requests 0b01, 0b11, 0b10, 0b00 are
  granted 0b01, 0b01, 0b10, 0 (vectors are written least significant bit first).
\<close>

theorem RoundRobinSelector_WITHDRAW_hold:
  assumes "policy self = WITHDRAW" and "fits self xs" and "length i = n_reqs self"
    and "st = RoundRobinSelector_state self (RoundRobinSelector_reset self) xs"
  shows "((\<exists>j<n_reqs self. st ! j \<and> i ! j) \<longrightarrow>
            RoundRobinSelector_elaborate self st (i, e) = (st, st)) \<and>
         (\<not> (\<exists>j<n_reqs self. st ! j \<and> i ! j) \<longrightarrow>
            RoundRobinSelector_elaborate self st (i, e) =
              (grant_vector (n_reqs self) (rotation_winner (lowest_request st) i),
               grant_vector (n_reqs self) (rotation_winner (lowest_request st) i))) \<and>
         RoundRobinSelector_outputs \<lparr>n_reqs = 2, policy = WITHDRAW\<rparr>
            (RoundRobinSelector_reset \<lparr>n_reqs = 2, policy = WITHDRAW\<rparr>)
            [([True, False], e1), ([True, True], e2), ([False, True], e3), ([False, False], e4)] =
           [[True, False], [True, False], [False, True], [False, False]]"
proof -
  from RoundRobinSelector_reachable[OF assms(2)] assms(4)
  obtain lastg where l: "valid_last (n_reqs self) lastg" "st = grant_vector (n_reqs self) lastg"
    by auto
  have len: "length i = length st" using l(2) assms(3) by (simp add: length_grant_vector)
  have en: "RoundRobinSelector_en self st (i, e) = (\<not> (\<exists>j<n_reqs self. st ! j \<and> i ! j))"
    using RoundRobinSelector_en_WITHDRAW[OF assms(1) len, of e] assms(3) by auto
  have hold: "(\<exists>j<n_reqs self. st ! j \<and> i ! j) \<longrightarrow>
            RoundRobinSelector_elaborate self st (i, e) = (st, st)"
  proof
    assume "\<exists>j<n_reqs self. st ! j \<and> i ! j"
    with en have "\<not> RoundRobinSelector_en self st (i, e)" by blast
    then have "\<not> RoundRobinSelector_en self (grant_vector (n_reqs self) lastg) (i, e)"
      using l(2) by simp
    from RoundRobinSelector_hold[OF this] l(2)
    show "RoundRobinSelector_elaborate self st (i, e) = (st, st)" by simp
  qed
  have fresh: "\<not> (\<exists>j<n_reqs self. st ! j \<and> i ! j) \<longrightarrow>
            RoundRobinSelector_elaborate self st (i, e) =
              (grant_vector (n_reqs self) (rotation_winner (lowest_request st) i),
               grant_vector (n_reqs self) (rotation_winner (lowest_request st) i))"
  proof
    assume "\<not> (\<exists>j<n_reqs self. st ! j \<and> i ! j)"
    with en have "RoundRobinSelector_en self st (i, e)" by blast
    from RoundRobinSelector_round_reachable[OF assms(2) assms(3) assms(4) this]
    show "RoundRobinSelector_elaborate self st (i, e) =
              (grant_vector (n_reqs self) (rotation_winner (lowest_request st) i),
               grant_vector (n_reqs self) (rotation_winner (lowest_request st) i))" by simp
  qed
  have trace: "RoundRobinSelector_outputs \<lparr>n_reqs = 2, policy = WITHDRAW\<rparr>
            (RoundRobinSelector_reset \<lparr>n_reqs = 2, policy = WITHDRAW\<rparr>)
            [([True, False], e1), ([True, True], e2), ([False, True], e3), ([False, False], e4)] =
           [[True, False], [True, False], [False, True], [False, False]]"
    by code_simp
  from hold fresh trace show ?thesis by blast
qed


theorem RoundRobinSelector_WITHDRAW_hold_witness:
  "policy \<lparr>n_reqs = 2, policy = WITHDRAW\<rparr> = WITHDRAW \<and>
   fits \<lparr>n_reqs = 2, policy = WITHDRAW\<rparr> [([True, False], False)] \<and>
   length [True, True] = n_reqs \<lparr>n_reqs = 2, policy = WITHDRAW\<rparr> \<and>
   RoundRobinSelector_state \<lparr>n_reqs = 2, policy = WITHDRAW\<rparr>
      (RoundRobinSelector_reset \<lparr>n_reqs = 2, policy = WITHDRAW\<rparr>) [([True, False], False)] =
     [True, False] \<and>
   RoundRobinSelector_elaborate \<lparr>n_reqs = 2, policy = WITHDRAW\<rparr> [True, False]
      ([True, True], False) = ([True, False], [True, False]) \<and>
   RoundRobinSelector_elaborate \<lparr>n_reqs = 2, policy = WITHDRAW\<rparr> [True, False]
      ([False, True], False) = ([False, True], [False, True])"
proof -
  let ?s = "\<lparr>n_reqs = 2, policy = WITHDRAW\<rparr>"
  have a: "policy ?s = WITHDRAW" by simp
  have b: "fits ?s [([True, False], False)]" by code_simp
  have c: "length [True, True] = n_reqs ?s" by simp
  have c': "length [False, True] = n_reqs ?s" by simp
  have d: "[True, False] =
     RoundRobinSelector_state ?s (RoundRobinSelector_reset ?s) [([True, False], False)]"
    by code_simp
  have h: "\<exists>j<n_reqs ?s. [True, False] ! j \<and> [True, True] ! j"
    by (rule exI[of _ 0]) simp
  have f: "\<not> (\<exists>j<n_reqs ?s. [True, False] ! j \<and> [False, True] ! j)"
  proof
    assume "\<exists>j<n_reqs ?s. [True, False] ! j \<and> [False, True] ! j"
    then obtain j where j: "j < 2" "[True, False] ! j" "[False, True] ! j" by auto
    from j(1) have "j = 0 \<or> j = 1" by auto
    with j(2,3) show False by auto
  qed
  have v: "grant_vector (n_reqs ?s) (rotation_winner (lowest_request [True, False]) [False, True]) =
     [False, True]" by code_simp
  from RoundRobinSelector_WITHDRAW_hold[OF a b c d, of False] h
  have 1: "RoundRobinSelector_elaborate ?s [True, False] ([True, True], False) =
     ([True, False], [True, False])" by blast
  from RoundRobinSelector_WITHDRAW_hold[OF a b c' d, of False] f v
  have 2: "RoundRobinSelector_elaborate ?s [True, False] ([False, True], False) =
     ([False, True], [False, True])" by simp
  from a b c d[symmetric] 1 2 show ?thesis by blast
qed

text \<open>
  C5, as the code has it. RoundRobinSelector under the policy CE, in any reachable state:
  on a tick with \<^verbatim>\<open>en\<close> low the output is the register and the register is kept,
  whatever the requests; over any number of such ticks the outputs stay at the register
  and the register stays; the register differs in the next tick only if \<^verbatim>\<open>en\<close> was
  high in this one; and the output of a tick differs from the output of the tick before
  only if \<^verbatim>\<open>en\<close> is high in that very tick.
\<close>

theorem RoundRobinSelector_CE_frozen:
  assumes "policy self = CE" and "fits self xs"
    and "st = RoundRobinSelector_state self (RoundRobinSelector_reset self) xs"
  shows "RoundRobinSelector_elaborate self st (i, False) = (st, st) \<and>
         (list_all (\<lambda>x. \<not> snd x) ys \<longrightarrow>
            RoundRobinSelector_outputs self st ys = replicate (length ys) st \<and>
            RoundRobinSelector_state self st ys = st) \<and>
         (snd (RoundRobinSelector_elaborate self st (i, e)) \<noteq> st \<longrightarrow> e) \<and>
         (fst (RoundRobinSelector_elaborate self
                 (snd (RoundRobinSelector_elaborate self st (i, e))) (i', e'))
            \<noteq> fst (RoundRobinSelector_elaborate self st (i, e)) \<longrightarrow> e')"
proof -
  from RoundRobinSelector_reachable[OF assms(2)] assms(3)
  obtain lastg where "st = grant_vector (n_reqs self) lastg" by auto
  then have len: "length st = n_reqs self" by (simp add: length_grant_vector)
  have 1: "RoundRobinSelector_elaborate self st (i, False) = (st, st)"
    using assms(1) len by (rule RoundRobinSelector_CE_disabled)
  have 2: "list_all (\<lambda>x. \<not> snd x) ys \<longrightarrow>
            RoundRobinSelector_outputs self st ys = replicate (length ys) st \<and>
            RoundRobinSelector_state self st ys = st"
    using RoundRobinSelector_CE_frozen_run[OF assms(1) len] by blast
  have 3: "snd (RoundRobinSelector_elaborate self st (i, e)) \<noteq> st \<longrightarrow> e"
    using 1 by (cases e) simp_all
  let ?st' = "snd (RoundRobinSelector_elaborate self st (i, e))"
  have len': "length ?st' = n_reqs self"
    using len by (rule length_RoundRobinSelector_next)
  have "RoundRobinSelector_elaborate self ?st' (i', False) = (?st', ?st')"
    using assms(1) len' by (rule RoundRobinSelector_CE_disabled)
  moreover have "fst (RoundRobinSelector_elaborate self st (i, e)) = ?st'"
    using len by (rule RoundRobinSelector_output_is_next_state)
  ultimately have 4: "fst (RoundRobinSelector_elaborate self ?st' (i', e'))
            \<noteq> fst (RoundRobinSelector_elaborate self st (i, e)) \<longrightarrow> e'"
    by (cases e') simp_all
  from 1 2 3 4 show ?thesis by blast
qed

theorem RoundRobinSelector_CE_frozen_witness:
  "policy \<lparr>n_reqs = 2, policy = CE\<rparr> = CE \<and>
   fits \<lparr>n_reqs = 2, policy = CE\<rparr> [([True, True], True)] \<and>
   RoundRobinSelector_state \<lparr>n_reqs = 2, policy = CE\<rparr>
      (RoundRobinSelector_reset \<lparr>n_reqs = 2, policy = CE\<rparr>) [([True, True], True)] = [True, False] \<and>
   list_all (\<lambda>x. \<not> snd x) [([False, True], False), ([False, False], False)] \<and>
   RoundRobinSelector_elaborate \<lparr>n_reqs = 2, policy = CE\<rparr> [True, False] ([False, True], False) =
     ([True, False], [True, False]) \<and>
   RoundRobinSelector_outputs \<lparr>n_reqs = 2, policy = CE\<rparr> [True, False]
      [([False, True], False), ([False, False], False)] = [[True, False], [True, False]] \<and>
   RoundRobinSelector_state \<lparr>n_reqs = 2, policy = CE\<rparr> [True, False]
      [([False, True], False), ([False, False], False)] = [True, False] \<and>
   snd (RoundRobinSelector_elaborate \<lparr>n_reqs = 2, policy = CE\<rparr> [True, False] ([False, True], True))
     \<noteq> [True, False]"
proof -
  let ?s = "\<lparr>n_reqs = 2, policy = CE\<rparr>"
  have a: "policy ?s = CE" by simp
  have b: "fits ?s [([True, True], True)]" by code_simp
  have c: "[True, False] =
     RoundRobinSelector_state ?s (RoundRobinSelector_reset ?s) [([True, True], True)]"
    by code_simp
  have d: "list_all (\<lambda>x. \<not> snd x) [([False, True], False), ([False, False], False)]" by simp
  have g: "snd (RoundRobinSelector_elaborate ?s [True, False] ([False, True], True)) \<noteq> [True, False]"
    by code_simp
  note t = RoundRobinSelector_CE_frozen[OF a b c,
      of "[False, True]" "[([False, True], False), ([False, False], False)]"]
  from t have e1: "RoundRobinSelector_elaborate ?s [True, False] ([False, True], False) =
     ([True, False], [True, False])" by blast
  from t d have o: "RoundRobinSelector_outputs ?s [True, False]
      [([False, True], False), ([False, False], False)] =
      replicate (length [([False, True], False), ([False, False], False)]) [True, False]"
    and f: "RoundRobinSelector_state ?s [True, False]
      [([False, True], False), ([False, False], False)] = [True, False]"
    by blast+
  have r: "replicate (length [([False, True], False), ([False, False], False)]) [True, False] =
     [[True, False], [True, False]]" by simp
  from a b c[symmetric] d e1 o[unfolded r] f g show ?thesis by blast
qed


text \<open>
  C5, as stated, fails for the output: with both requests set and \<^verbatim>\<open>en\<close> high, low,
  high in three ticks from reset, the output is 0b01, 0b01, 0b10. It changes in the third
  tick, which follows a tick with \<^verbatim>\<open>en\<close> low: the fresh grant is presented in the
  tick in which \<^verbatim>\<open>en\<close> is high, as the class's test
  \<^verbatim>\<open>check_walk_enable\<close> expects.
\<close>

theorem RoundRobinSelector_CE_output_changes_with_enable:
  "RoundRobinSelector_outputs \<lparr>n_reqs = 2, policy = CE\<rparr>
      (RoundRobinSelector_reset \<lparr>n_reqs = 2, policy = CE\<rparr>)
      [([True, True], True), ([True, True], False), ([True, True], True)] =
     [[True, False], [True, False], [False, True]] \<and>
   RoundRobinSelector_outputs \<lparr>n_reqs = 2, policy = CE\<rparr>
      (RoundRobinSelector_reset \<lparr>n_reqs = 2, policy = CE\<rparr>)
      [([True, True], True), ([True, True], False), ([True, True], True)] ! 2 \<noteq>
   RoundRobinSelector_outputs \<lparr>n_reqs = 2, policy = CE\<rparr>
      (RoundRobinSelector_reset \<lparr>n_reqs = 2, policy = CE\<rparr>)
      [([True, True], True), ([True, True], False), ([True, True], True)] ! 1 \<and>
   \<not> snd ([([True, True], True), ([True, True], False), ([True, True], True)] ! 1)"
  by code_simp

text \<open>
  C9. For RoundRobinSelector the claim holds: from any reachable state, over any further
  ticks in which requester \<open>r\<close> asserts its request throughout, if the ticks contain at
  least as many rounds of arbitration as the selector is wide (ticks with \<^verbatim>\<open>en\<close>
  high under CE, ticks on which the grantee has withdrawn under WITHDRAW), then one of the
  first \<open>n_reqs\<close> rounds grants \<open>r\<close>. FairAmongEqualsArbiter grants nobody: its
  construction raises a TypeError for every argument.
\<close>

theorem no_starvation_in_RoundRobinSelector_only:
  "(fits self xs \<and> fits self ys \<and> r < n_reqs self \<and> list_all (\<lambda>x. fst x ! r) ys \<and>
    n_reqs self \<le> length (RoundRobinSelector_rounds self
       (RoundRobinSelector_state self (RoundRobinSelector_reset self) xs) ys) \<longrightarrow>
    onehot (n_reqs self) r \<in> set (take (n_reqs self) (RoundRobinSelector_rounds self
       (RoundRobinSelector_state self (RoundRobinSelector_reset self) xs) ys))) \<and>
   FairAmongEqualsArbiter_init n_req max_pri =
     Inl (TypeError ''__init__() takes 2 positional arguments'')"
proof (intro conjI impI)
  assume a: "fits self xs \<and> fits self ys \<and> r < n_reqs self \<and> list_all (\<lambda>x. fst x ! r) ys \<and>
    n_reqs self \<le> length (RoundRobinSelector_rounds self
       (RoundRobinSelector_state self (RoundRobinSelector_reset self) xs) ys)"
  then show "onehot (n_reqs self) r \<in> set (take (n_reqs self) (RoundRobinSelector_rounds self
       (RoundRobinSelector_state self (RoundRobinSelector_reset self) xs) ys))"
    using RoundRobinSelector_served_in_n_rounds[of self xs
        "RoundRobinSelector_state self (RoundRobinSelector_reset self) xs" ys r]
    by blast
next
  show "FairAmongEqualsArbiter_init n_req max_pri =
     Inl (TypeError ''__init__() takes 2 positional arguments'')"
    by (simp add: FairAmongEqualsArbiter_init_def ArbiterInterface_init_two_args)
qed

theorem no_starvation_in_RoundRobinSelector_only_witness:
  "fits \<lparr>n_reqs = 3, policy = CE\<rparr> [] \<and>
   RoundRobinSelector_state \<lparr>n_reqs = 3, policy = CE\<rparr>
      (RoundRobinSelector_reset \<lparr>n_reqs = 3, policy = CE\<rparr>) [] = [False, False, False] \<and>
   fits \<lparr>n_reqs = 3, policy = CE\<rparr>
      [([True, True, True], True), ([True, True, True], True), ([True, True, True], True)] \<and>
   (2::nat) < n_reqs \<lparr>n_reqs = 3, policy = CE\<rparr> \<and>
   list_all (\<lambda>x. fst x ! 2)
      [([True, True, True], True), ([True, True, True], True), ([True, True, True], True)] \<and>
   RoundRobinSelector_rounds \<lparr>n_reqs = 3, policy = CE\<rparr> [False, False, False]
      [([True, True, True], True), ([True, True, True], True), ([True, True, True], True)] =
     [[True, False, False], [False, True, False], [False, False, True]] \<and>
   onehot 3 2 \<in> set (take 3 (RoundRobinSelector_rounds \<lparr>n_reqs = 3, policy = CE\<rparr>
      [False, False, False]
      [([True, True, True], True), ([True, True, True], True), ([True, True, True], True)])) \<and>
   FairAmongEqualsArbiter_init (PyInt 2) PyNone =
     Inl (TypeError ''__init__() takes 2 positional arguments'')"
proof -
  let ?s = "\<lparr>n_reqs = 3, policy = CE\<rparr>"
  let ?ys = "[([True, True, True], True), ([True, True, True], True), ([True, True, True], True)]"
  have a: "fits ?s []" by code_simp
  have b: "RoundRobinSelector_state ?s (RoundRobinSelector_reset ?s) [] = [False, False, False]"
    by code_simp
  have c: "fits ?s ?ys" by code_simp
  have d: "(2::nat) < n_reqs ?s" by simp
  have e: "list_all (\<lambda>x. fst x ! 2) ?ys" by simp
  have v: "RoundRobinSelector_rounds ?s [False, False, False] ?ys =
     [[True, False, False], [False, True, False], [False, False, True]]" by code_simp
  have f: "n_reqs ?s \<le> length (RoundRobinSelector_rounds ?s [False, False, False] ?ys)"
    unfolding v by simp
  have n: "n_reqs ?s = 3" by simp
  note t = no_starvation_in_RoundRobinSelector_only[of ?s "[]" ?ys 2 "PyInt 2" PyNone,
      unfolded b n]
  from t a c d[unfolded n] e f[unfolded n]
  have g: "onehot 3 2 \<in> set (take 3 (RoundRobinSelector_rounds ?s [False, False, False] ?ys))"
    by blast
  from t have h: "FairAmongEqualsArbiter_init (PyInt 2) PyNone =
     Inl (TypeError ''__init__() takes 2 positional arguments'')" by blast
  from a b c d e v g h show ?thesis by blast
qed

text \<open>
  C6. The claim holds for RoundRobinSelector of coding.py, whose tick is a function of
  the register and the inputs of the same tick (\<open>RoundRobinSelector_elaborate\<close>). For
  RoundRobinArbiter of arbiter.py the code yields no such grant: construction raises a
  TypeError for every argument (\<^verbatim>\<open>super().__init__(self, n_req)\<close> passes the
  instance twice); the grant expression \<^verbatim>\<open>_rrobin_sel(self.i, grant_prev)\<close> raises
  for every request and register (an AttributeError, where \<^verbatim>\<open>_priority_sel\<close> reads
  \<^verbatim>\<open>nbits\<close> of a \<^verbatim>\<open>Cat\<close>); and the block that drives the output assigns
  it in the synchronous domain on a hold tick, so that the output of a hold tick is the
  output register, whatever \<^verbatim>\<open>grant_prev\<close> holds: after a tick that grants 0b01
  from reset, the first hold tick shows 0 and the second shows 0b01, with the same
  register \<^verbatim>\<open>grant_prev\<close> in both.
\<close>

theorem RoundRobinArbiter_gives_no_grant:
  "RoundRobinArbiter_init n_req p =
     Inl (TypeError ''__init__() takes 2 positional arguments'') \<and>
   rrobin_sel i prev_grant = Inl (AttributeError ''nbits'') \<and>
   fst (RoundRobinArbiter_If_Else n False grant (grant_prev, o_sync)) = o_sync \<and>
   RoundRobinArbiter_If_Else 2 True [True, False] ([False, False], [False, False]) =
     ([True, False], ([True, False], [False, False])) \<and>
   RoundRobinArbiter_If_Else 2 False grant ([True, False], [False, False]) =
     ([False, False], ([True, False], [True, False])) \<and>
   RoundRobinArbiter_If_Else 2 False grant ([True, False], [True, False]) =
     ([True, False], ([True, False], [True, False]))"
  by (simp add: RoundRobinArbiter_init_def ArbiterInterface_init_two_args rrobin_sel_raises
      RoundRobinArbiter_If_Else_def assign_def zext_def Let_def)

theorem RoundRobinArbiter_gives_no_grant_witness:
  "RoundRobinArbiter_init (PyInt 2) (PyPolicy WITHDRAW) =
     Inl (TypeError ''__init__() takes 2 positional arguments'') \<and>
   rrobin_sel (Sig [True, False]) (Sig [True, False]) = Inl (AttributeError ''nbits'') \<and>
   fst (RoundRobinArbiter_If_Else 2 False [True, False] ([True, False], [False, False])) =
     [False, False]"
  using RoundRobinArbiter_gives_no_grant[of "PyInt 2" "PyPolicy WITHDRAW" "Sig [True, False]"
      "Sig [True, False]" 2 "[True, False]" "[True, False]" "[False, False]"]
  by simp

text \<open>
  C7. ProgPriorityArbiter does not compute the grant of the claim: construction raises a
  TypeError for every argument, and the tier multiplexer \<^verbatim>\<open>_bitmap_mux\<close> does not
  select the winning tier. With tier 1 selected (\<open>sel = 0b10\<close>), tier 0 empty and both
  requesters in tier 1, it returns four zero bits where the vector of the winning tier
  is 0b11, and \<^verbatim>\<open>_priority_sel\<close> of its result, a \<^verbatim>\<open>Cat\<close>, raises an
  AttributeError; with two tiers and three requesters it raises an IndexError.
\<close>

theorem ProgPriorityArbiter_gives_no_tier_grant:
  "ProgPriorityArbiter_init n_req max_pri =
     Inl (TypeError ''__init__() takes 2 positional arguments'') \<and>
   bitmap_mux [False, True] [[False, False], [True, True]] 2 =
     Inr [False, False, False, False] \<and>
   priority_sel (Expr [False, False, False, False]) = Inl (AttributeError ''nbits'') \<and>
   bitmap_mux [True, False] [[True, False, False], [False, True, False]] 3 =
     Inl (IndexError ''index out of range'')"
proof (intro conjI)
  show "ProgPriorityArbiter_init n_req max_pri =
     Inl (TypeError ''__init__() takes 2 positional arguments'')"
    by (simp add: ProgPriorityArbiter_init_def ArbiterInterface_init_two_args)
  show "bitmap_mux [False, True] [[False, False], [True, True]] 2 =
     Inr [False, False, False, False]" by code_simp
  show "priority_sel (Expr [False, False, False, False]) = Inl (AttributeError ''nbits'')"
    by (rule priority_sel_Expr)
  show "bitmap_mux [True, False] [[True, False, False], [False, True, False]] 3 =
     Inl (IndexError ''index out of range'')" by code_simp
qed

theorem ProgPriorityArbiter_gives_no_tier_grant_witness:
  "ProgPriorityArbiter_init (PyInt 2) PyNone =
     Inl (TypeError ''__init__() takes 2 positional arguments'') \<and>
   ProgPriorityArbiter_init (PyInt 2) (PyInt 2) =
     Inl (TypeError ''__init__() takes 2 positional arguments'')"
  using ProgPriorityArbiter_gives_no_tier_grant[of "PyInt 2" PyNone]
    ProgPriorityArbiter_gives_no_tier_grant[of "PyInt 2" "PyInt 2"]
  by simp

text \<open>
  C8. FairAmongEqualsArbiter does not compute the grant of the claim: construction
  raises a TypeError for every argument, and the rotation \<^verbatim>\<open>_rrobin_sel\<close> applied to
  the tier-masked vector and the register raises for all of them (an AttributeError, where
  \<^verbatim>\<open>_priority_sel\<close> reads \<^verbatim>\<open>nbits\<close> of a \<^verbatim>\<open>Cat\<close>). The tier
  selection is that of ProgPriorityArbiter and does not give the winning tier's vector:
  with tier 0 selected (\<open>sel = 0b01\<close>), requester 0 in tier 0 and requester 1 in tier 1,
  \<^verbatim>\<open>_bitmap_mux\<close> returns the four bits 0b0101 where the tier's vector is 0b01.
\<close>

theorem FairAmongEqualsArbiter_gives_no_rotation:
  "FairAmongEqualsArbiter_init n_req max_pri =
     Inl (TypeError ''__init__() takes 2 positional arguments'') \<and>
   rrobin_sel level_muxed grant_prev = Inl (AttributeError ''nbits'') \<and>
   bitmap_mux [True, False] [[True, False], [False, True]] 2 = Inr [True, False, True, False]"
proof (intro conjI)
  show "FairAmongEqualsArbiter_init n_req max_pri =
     Inl (TypeError ''__init__() takes 2 positional arguments'')"
    by (simp add: FairAmongEqualsArbiter_init_def ArbiterInterface_init_two_args)
  show "rrobin_sel level_muxed grant_prev = Inl (AttributeError ''nbits'')"
    by (rule rrobin_sel_raises)
  show "bitmap_mux [True, False] [[True, False], [False, True]] 2 = Inr [True, False, True, False]"
    by code_simp
qed

theorem FairAmongEqualsArbiter_gives_no_rotation_witness:
  "FairAmongEqualsArbiter_init (PyInt 3) PyNone =
     Inl (TypeError ''__init__() takes 2 positional arguments'') \<and>
   rrobin_sel (Expr [False, True, True]) (Sig [False, True, False]) =
     Inl (AttributeError ''nbits'')"
  using FairAmongEqualsArbiter_gives_no_rotation[of "PyInt 3" PyNone "Expr [False, True, True]"
      "Sig [False, True, False]"]
  by simp

text \<open>
  C10, as the code has it. RoundRobinSelector is constructed exactly when the number of
  requests is an integer of at least 1 (\<^verbatim>\<open>True\<close> counts as 1 in Python) and the
  policy is a member of RobinPolicy, with that width and policy, and raises a TypeError in
  every other case. PrioritySelector and RoundRobinEncoder check nothing themselves:
  PrioritySelector is constructed with every integer width that is not negative, zero
  included, and RoundRobinEncoder with every such number of requests and any value as the
  policy. The witness holds the cases of the test \<^verbatim>\<open>test_paramcheck\<close>.
\<close>

theorem RoundRobinSelector_init_checks:
  "((\<exists>self. RoundRobinSelector_init n p = Inr self) =
      (((\<exists>k\<ge>1. n = PyInt k) \<or> n = PyBool True) \<and> (\<exists>pol. p = PyPolicy pol))) \<and>
   ((\<exists>msg. RoundRobinSelector_init n p = Inl (TypeError msg)) =
      (\<not> (((\<exists>k\<ge>1. n = PyInt k) \<or> n = PyBool True) \<and> (\<exists>pol. p = PyPolicy pol)))) \<and>
   (1 \<le> k \<longrightarrow>
      RoundRobinSelector_init (PyInt k) (PyPolicy pol) = Inr \<lparr>n_reqs = nat k, policy = pol\<rparr>) \<and>
   (0 \<le> w \<longrightarrow> PrioritySelector_init w = Inr \<lparr>width = nat w\<rparr>) \<and>
   (0 \<le> m \<longrightarrow>
      RoundRobinEncoder_init m q =
        Inr \<lparr>enc_n_reqs = m, enc_policy = q, enc_has_en = (q = PyPolicy CE)\<rparr>)"
proof -
  let ?valid = "((\<exists>k\<ge>1. n = PyInt k) \<or> n = PyBool True) \<and> (\<exists>pol. p = PyPolicy pol)"
  have ok: "?valid \<Longrightarrow> \<exists>self. RoundRobinSelector_init n p = Inr self"
  proof -
    assume v: ?valid
    then obtain pol where p: "p = PyPolicy pol" by blast
    from v have "isinstance_int n \<and> 1 \<le> int_of n" by (simp add: positive_int_cases)
    with p show ?thesis by (simp add: RoundRobinSelector_init_valid)
  qed
  have bad: "\<not> ?valid \<Longrightarrow> \<exists>msg. RoundRobinSelector_init n p = Inl (TypeError msg)"
  proof -
    assume nv: "\<not> ?valid"
    show ?thesis
    proof (cases "\<exists>pol. p = PyPolicy pol")
      case False
      then show ?thesis by (simp add: RoundRobinSelector_init_policy)
    next
      case True
      then obtain pol where p: "p = PyPolicy pol" by blast
      with nv have "\<not> (isinstance_int n \<and> 1 \<le> int_of n)"
        by (simp add: positive_int_cases)
      with p show ?thesis by (simp add: RoundRobinSelector_init_n_reqs)
    qed
  qed
  have 1: "(\<exists>self. RoundRobinSelector_init n p = Inr self) = ?valid"
    using ok bad by (cases "?valid") auto
  have 2: "(\<exists>msg. RoundRobinSelector_init n p = Inl (TypeError msg)) = (\<not> ?valid)"
    using ok bad by (cases "?valid") auto
  have 3: "1 \<le> k \<longrightarrow>
      RoundRobinSelector_init (PyInt k) (PyPolicy pol) = Inr \<lparr>n_reqs = nat k, policy = pol\<rparr>"
    by (simp add: RoundRobinSelector_init_valid)
  have 4: "0 \<le> w \<longrightarrow> PrioritySelector_init w = Inr \<lparr>width = nat w\<rparr>"
    by (simp add: PrioritySelector_init_def Signal_def)
  have 5: "0 \<le> m \<longrightarrow>
      RoundRobinEncoder_init m q =
        Inr \<lparr>enc_n_reqs = m, enc_policy = q, enc_has_en = (q = PyPolicy CE)\<rparr>"
    by (auto simp: RoundRobinEncoder_init_def Signal_def Signal_max_def Signal_default_def)
  from 1 2 3 4 5 show ?thesis by blast
qed

theorem RoundRobinSelector_init_checks_witness:
  "(1::int) \<le> 1 \<and> (0::int) \<le> 3 \<and>
   RoundRobinSelector_init (PyInt 1) (PyPolicy WITHDRAW) = Inr \<lparr>n_reqs = 1, policy = WITHDRAW\<rparr> \<and>
   RoundRobinSelector_init (PyInt 0) (PyPolicy CE) =
     Inl (TypeError ''n_reqs must be a positive integer'') \<and>
   RoundRobinSelector_init (PyInt 1) (PyInt 0) = Inl (TypeError ''policy must be a RobinPolicy'') \<and>
   RoundRobinSelector_init (PyInt 1) (PyStr ''WITHDRAW'') =
     Inl (TypeError ''policy must be a RobinPolicy'') \<and>
   PrioritySelector_init 3 = Inr \<lparr>width = 3\<rparr> \<and>
   RoundRobinEncoder_init 3 (PyPolicy CE) =
     Inr \<lparr>enc_n_reqs = 3, enc_policy = PyPolicy CE, enc_has_en = True\<rparr>"
  using RoundRobinSelector_init_checks[of "PyInt 1" "PyPolicy WITHDRAW" 1 WITHDRAW 3 3 "PyPolicy CE"]
  by (simp add: RoundRobinSelector_init_def Signal_def)

text \<open>
  C10, as stated, fails: RoundRobinEncoder is constructed with a policy that is not a
  member of RobinPolicy (the string of the test \<^verbatim>\<open>test_paramcheck\<close>), and
  PrioritySelector with the width 0, which the framework's \<^verbatim>\<open>Signal\<close> accepts.
\<close>

theorem RoundRobinEncoder_init_unchecked:
  "RoundRobinEncoder_init 2 (PyStr ''WITHDRAW'') =
     Inr \<lparr>enc_n_reqs = 2, enc_policy = PyStr ''WITHDRAW'', enc_has_en = False\<rparr> \<and>
   PrioritySelector_init 0 = Inr \<lparr>width = 0\<rparr>"
  by (simp add: RoundRobinEncoder_init_def PrioritySelector_init_def Signal_def Signal_max_def
      Signal_default_def)

end
